theory Spec2Isabelle
  imports Main "HOL-Library.Word" "HOL-Library.Monad_Syntax"
begin

unbundle bit_operations_syntax

section \<open>The root node of the encrypted overlay (internal/fusefrontend/root\_node.go)\<close>

text \<open>
  The methods of \<open>RootNode\<close> are embedded as HOL functions. A method that assigns a field
  of its receiver returns the updated receiver next to its result; a method that only
  reads its receiver returns its result alone. Calls into packages whose code is not part
  of the file at hand (the kernel, \<open>nametransform\<close>, \<open>contentenc\<close>, \<open>tlog\<close>) are
  recorded in a list of events, so that "this call is never made" is a statement about
  that list.
\<close>

subsection \<open>Machine types\<close>

type_synonym u32 = "32 word"
type_synonym u64 = "64 word"

text \<open>Go's \<open>int\<close> on the 64-bit targets: 64 bits, two's complement.\<close>
type_synonym goint = "64 word"

text \<open>\<open>[]byte\<close>; a Go \<open>string\<close> is a byte sequence as well, and is a \<open>string\<close> here.\<close>
type_synonym bytes = "char list"

text \<open>
  Go's \<open>error\<close> interface: a \<open>syscall.Errno\<close> number, or any other error, named by its
  message. A nil error is \<open>None\<close> of \<open>error option\<close>.
\<close>
datatype error = Errno nat | Err string

definition EPERM :: error where
  "EPERM = Errno 1"

definition ENOENT :: error where
  "ENOENT = Errno 2"

definition EBADF :: error where
  "EBADF = Errno 9"

definition EACCES :: error where
  "EACCES = Errno 13"

definition EROFS :: error where
  "EROFS = Errno 30"

subsection \<open>Open flags\<close>

text \<open>
  The access-mode constants of package \<open>syscall\<close> (\<open>os.O_WRONLY\<close> and \<open>os.O_RDWR\<close>
  are defined as the \<open>syscall\<close> ones). They have these values on every Unix target of Go.
\<close>

definition O_RDONLY :: goint where
  "O_RDONLY = 0"

definition O_WRONLY :: goint where
  "O_WRONLY = 1"

definition O_RDWR :: goint where
  "O_RDWR = 2"

definition O_ACCMODE :: goint where
  "O_ACCMODE = 3"

text \<open>
  The remaining flag constants differ between operating systems and architectures
  (\<open>syscallcompat.O_DIRECT\<close> is even 0 where direct I/O does not exist), and their
  declarations are not part of the file at hand: they are a parameter of the model.
\<close>

record oflags =
  O_APPEND :: goint
  O_DIRECT :: goint
  O_CREAT :: goint
  O_NOFOLLOW :: goint

text \<open>
  What the flag-mangling policy needs of the constants: the four flags lie outside the
  access-mode bits, and \<open>O_NOFOLLOW\<close> shares no bit with a flag that is stripped.
\<close>

definition oflags_ok :: "oflags \<Rightarrow> bool" where
  "oflags_ok c \<longleftrightarrow>
     (O_APPEND c OR O_DIRECT c OR O_CREAT c OR O_NOFOLLOW c) AND O_ACCMODE = 0 \<and>
     (O_APPEND c OR O_DIRECT c OR O_CREAT c) AND O_NOFOLLOW c = 0"

text \<open>The values of linux/amd64.\<close>

definition linux_amd64 :: oflags where
  "linux_amd64 = \<lparr>O_APPEND = 0x400, O_DIRECT = 0x4000, O_CREAT = 0x40, O_NOFOLLOW = 0x20000\<rparr>"

text \<open>The values of darwin, where \<open>syscallcompat.O_DIRECT\<close> is 0.\<close>

definition darwin :: oflags where
  "darwin = \<lparr>O_APPEND = 0x8, O_DIRECT = 0, O_CREAT = 0x200, O_NOFOLLOW = 0x100\<rparr>"

subsection \<open>The receiver\<close>

text \<open>\<open>Args\<close>: of the mount arguments, the methods below read \<open>PlaintextNames\<close> only.\<close>

record Args =
  PlaintextNames :: bool

text \<open>
  \<open>nametransform.NameTransformer\<close> and \<open>contentenc.ContentEnc\<close> are declared in other
  packages. Each is the record of the methods that \<open>RootNode\<close> calls, with Go's pair of
  a value and an error as the result: a parameter of the model.
\<close>

record NameTransformer =
  B64DecodeString :: "string \<Rightarrow> bytes \<times> error option"

record ContentEnc =
  DecryptBlock :: "bytes \<Rightarrow> u64 \<Rightarrow> bytes \<Rightarrow> bytes \<times> error option"

text \<open>
  How the goroutine that runs a method holds a \<open>sync.RWMutex\<close>: not at all, for
  reading (\<open>RLock\<close>), or for writing (\<open>Lock\<close>).
\<close>

datatype hold = Unheld | Shared | Exclusive

text \<open>
  A \<open>chan string\<close>, from the side of a sender: the items sent on it so far, oldest
  first, and whether it has been closed. A nil channel is \<open>None\<close> of \<open>chan option\<close>.
\<close>

record chan =
  sent :: "string list"
  closed :: bool

text \<open>
  \<open>RootNode\<close>. The embedded \<open>Node\<close> and \<open>inoMap\<close> are left out: their types belong to
  other packages and no method below reads or writes them.
\<close>

record RootNode =
  args :: Args
  dirIVLock :: hold
  nameTransform :: NameTransformer
  contentEnc :: ContentEnc
  openWriteOnlyLock :: hold
  MitigatedCorruptions :: "chan option"
  IsIdle :: u32

subsection \<open>mangleOpenFlags\<close>

text \<open>
  \<open>^\<close> and \<open>|\<close> have the same precedence in Go and associate to the left:
  \<open>newFlags ^ os.O_WRONLY | os.O_RDWR\<close> is \<open>(newFlags ^ os.O_WRONLY) | os.O_RDWR\<close>.
  \<open>x &^ y\<close> is \<open>x AND NOT y\<close>. \<open>int(flags)\<close> extends the 32 bits with zeros.
\<close>

definition mangleOpenFlags :: "oflags \<Rightarrow> RootNode \<Rightarrow> u32 \<Rightarrow> goint" where
  "mangleOpenFlags c rn flags =
     (let newFlags = (ucast flags :: goint);
          newFlags = (if newFlags AND O_ACCMODE = O_WRONLY
                      then (newFlags XOR O_WRONLY) OR O_RDWR else newFlags);
          newFlags = newFlags AND NOT (O_APPEND c);
          newFlags = newFlags AND NOT (O_DIRECT c);
          newFlags = newFlags AND NOT (O_CREAT c);
          newFlags = newFlags OR O_NOFOLLOW c
      in newFlags)"

subsection \<open>isFiltered\<close>

text \<open>What \<open>tlog\<close> is asked to print.\<close>

datatype logline =
    ReservedName string  \<comment> \<open>Info: The name /%s is reserved when -plaintextnames is used\<close>
  | ReportTimeout  \<comment> \<open>Warn: BUG: reportCorruptItem: timeout\<close>
  | UnexpectedPerms u32  \<comment> \<open>Warn: openWriteOnlyFile: unexpected permissions %#o, returning EPERM\<close>
  | ChmodFailed error  \<comment> \<open>Warn: openWriteOnlyFile: changing permissions failed: %v\<close>
  | RevertFailed error  \<comment> \<open>Warn: openWriteOnlyFile: reverting permissions failed: %v\<close>

text \<open>
  Modelled from the spec: \<open>configfile.ConfDefaultName\<close>, "the reserved configuration
  filename", is declared in package \<open>configfile\<close>, which is not part of the file at hand;
  the comment above the comparison in \<open>isFiltered\<close> gives its value.
\<close>

definition ConfDefaultName :: string where
  "ConfDefaultName = ''gocryptfs.conf''"

text \<open>
  Modelled from the spec: the name of the directory-IV marker file, declared in package
  \<open>nametransform\<close>; the comments on \<open>dirIVLock\<close> and in \<open>isFiltered\<close> give its value.
\<close>

definition DirIVFilename :: string where
  "DirIVFilename = ''gocryptfs.diriv''"

text \<open>The result, the receiver after the call, and the lines logged.\<close>

definition isFiltered :: "RootNode \<Rightarrow> string \<Rightarrow> bool \<times> RootNode \<times> logline list" where
  "isFiltered rn path =
     (let rn = rn\<lparr>IsIdle := 0\<rparr>
      in if \<not> PlaintextNames (args rn) then (False, rn, [])
         else if path = ConfDefaultName then (True, rn, [ReservedName ConfDefaultName])
         else (False, rn, []))"

subsection \<open>decryptSymlinkTarget\<close>

text \<open>The calls that \<open>decryptSymlinkTarget\<close> makes into other packages.\<close>

datatype call =
    CallB64DecodeString string
  | CallDecryptBlock bytes u64 bytes

text \<open>
  The result is Go's pair of a string and an error, and the calls made, in order. The
  \<open>fileID\<close> argument \<open>nil\<close> is the empty byte sequence.
\<close>

definition decryptSymlinkTarget ::
  "RootNode \<Rightarrow> string \<Rightarrow> (string \<times> error option) \<times> call list" where
  "decryptSymlinkTarget rn cData64 =
     (if cData64 = '''' then (('''', None), [])
      else
        (case B64DecodeString (nameTransform rn) cData64 of
           (cData, Some err) \<Rightarrow> (('''', Some err), [CallB64DecodeString cData64])
         | (cData, None) \<Rightarrow>
             (case DecryptBlock (contentEnc rn) cData 0 [] of
                (data, Some err) \<Rightarrow>
                  (('''', Some err), [CallB64DecodeString cData64, CallDecryptBlock cData 0 []])
              | (data, None) \<Rightarrow>
                  ((data, None), [CallB64DecodeString cData64, CallDecryptBlock cData 0 []]))))"

subsection \<open>reportMitigatedCorruption\<close>

text \<open>
  Go's \<open>select\<close>. Each case is given with the instant from which it can proceed, counted
  in nanoseconds from the start of the \<open>select\<close>, or \<open>None\<close> if it never can. The
  \<open>select\<close> blocks until the first instant at which some case can proceed, and runs one
  of the cases that can proceed then: the runtime picks among them at random, here by
  the number \<open>pick\<close>. The result is that instant and the case run; \<open>None\<close> when no case
  ever can proceed, and the goroutine blocks for ever.
\<close>

fun ready_times :: "('a \<times> nat option) list \<Rightarrow> nat list" where
  "ready_times [] = []"
| "ready_times ((c, None) # cs) = ready_times cs"
| "ready_times ((c, Some t) # cs) = t # ready_times cs"

fun can_proceed :: "nat \<Rightarrow> ('a \<times> nat option) list \<Rightarrow> 'a list" where
  "can_proceed t [] = []"
| "can_proceed t ((c, None) # cs) = can_proceed t cs"
| "can_proceed t ((c, Some t') # cs) =
     (if t' \<le> t then c # can_proceed t cs else can_proceed t cs)"

definition select :: "('a \<times> nat option) list \<Rightarrow> nat \<Rightarrow> (nat \<times> 'a) option" where
  "select cs pick =
     (case ready_times cs of
        [] \<Rightarrow> None
      | t0 # ts \<Rightarrow>
          (let t = fold min ts t0; now = can_proceed t cs
           in Some (t, now ! (pick mod length now))))"

text \<open>
  What the sender cannot know: from when on a send on the channel can proceed, because a
  receiver is waiting or the buffer has room (\<open>None\<close>: never, the consumer does not
  drain the channel), and what the runtime picks.
\<close>

record select_env =
  send_ready :: "nat option"
  pick :: nat

text \<open>\<open>time.Second\<close>, in nanoseconds. The timer of \<open>time.After\<close> is taken to fire on time.\<close>

definition second :: nat where
  "second = 1000000000"

datatype sel_case = CaseSend | CaseTimer

text \<open>What a call does, in order: it sends an item, its timer fires, it logs.\<close>

datatype sel_event = SelSend string | SelTimer nat | SelLog logline

text \<open>How a call ends: it returns, it panics, or it blocks for ever.\<close>

datatype 'a fate = Returns 'a | Panics | Blocks

text \<open>
  The result is the receiver after the call, what the call did, and the time it took. A
  send on a closed channel can proceed at once, and panics.
\<close>

definition reportMitigatedCorruption ::
  "RootNode \<Rightarrow> string \<Rightarrow> select_env \<Rightarrow> (RootNode \<times> sel_event list \<times> nat) fate" where
  "reportMitigatedCorruption rn item env =
     (case MitigatedCorruptions rn of
        None \<Rightarrow> Returns (rn, [], 0)
      | Some ch \<Rightarrow>
          (case select [(CaseSend, if closed ch then Some 0 else send_ready env),
                        (CaseTimer, Some (1 * second))] (pick env) of
             None \<Rightarrow> Blocks
           | Some (t, c) \<Rightarrow>
               (case c of
                  CaseSend \<Rightarrow>
                    if closed ch then Panics
                    else Returns (rn\<lparr>MitigatedCorruptions := Some (ch\<lparr>sent := sent ch @ [item]\<rparr>)\<rparr>,
                                  [SelSend item], t)
                | CaseTimer \<Rightarrow>
                    Returns (rn, [SelTimer (1 * second), SelLog ReportTimeout], t))))"

subsection \<open>The kernel, as openWriteOnlyFile sees it\<close>

text \<open>
  \<open>openWriteOnlyFile\<close> talks to the kernel through \<open>syscallcompat.Openat\<close>,
  \<open>syscall.Fstat\<close>, \<open>syscall.Fchmod\<close> and \<open>syscall.Close\<close>, locks and unlocks
  \<open>rn.openWriteOnlyLock\<close>, and logs. Every such step is an event of the trace.
\<close>

datatype event =
    SysOpenat int string goint u32
  | SysFstat int
  | SysFchmod int u32
  | SysClose int
  | MuRUnlock
  | MuLock
  | MuUnlock
  | MuRLock
  | Log logline

text \<open>\<open>syscall.Stat_t\<close>: the code reads \<open>Mode\<close> only.\<close>

record Stat_t =
  Mode :: u32

text \<open>
  The state that a call runs in: the root node; the directory entries that a directory
  descriptor and a relative name lead to; the mode of every inode (file type and
  permission bits, as in \<open>st_mode\<close>); the open descriptors; whether the process may
  bypass permission checks (it is root); the next free descriptor; the trace. A system
  call can fail for reasons outside this state (an I/O error, a read-only remount, a full
  descriptor table): \<open>faults\<close> lists, in the order of the system calls made, the error
  that each one is to fail with, \<open>None\<close> for none, and \<open>nsys\<close> counts the system calls
  made so far.
\<close>

record world =
  root :: RootNode
  names :: "int \<times> string \<Rightarrow> nat option"
  modes :: "nat \<Rightarrow> u32"
  fds :: "int \<Rightarrow> nat option"
  next_fd :: int
  privileged :: bool
  faults :: "error option list"
  nsys :: nat
  trace :: "event list"

definition emit :: "event \<Rightarrow> world \<Rightarrow> world" where
  "emit e w = w\<lparr>trace := trace w @ [e]\<rparr>"

text \<open>The error injected into the \<open>k\<close>-th system call.\<close>

definition injected :: "world \<Rightarrow> nat \<Rightarrow> error option" where
  "injected w k = (if k < length (faults w) then faults w ! k else None)"

text \<open>Entering a system call: it is traced and counted, and its injected error is read.\<close>

definition sysenter :: "event \<Rightarrow> world \<Rightarrow> error option \<times> world" where
  "sysenter e w = (injected w (nsys w), w\<lparr>nsys := nsys w + 1, trace := trace w @ [e]\<rparr>)"

text \<open>
  The permission check of \<open>open\<close>, for a process that owns the file (the case the code is
  written for: it tests and sets the owner's read bit, octal 0400; the owner's write bit
  is octal 0200). Access mode 3 asks for both, as on Linux.
\<close>

definition may_open :: "bool \<Rightarrow> u32 \<Rightarrow> goint \<Rightarrow> bool" where
  "may_open priv mode flags \<longleftrightarrow>
     priv \<or>
     ((flags AND O_ACCMODE = O_WRONLY \<or> mode AND 0x100 \<noteq> 0) \<and>
      (flags AND O_ACCMODE = O_RDONLY \<or> mode AND 0x80 \<noteq> 0))"

text \<open>
  Modelled from the spec: \<open>syscallcompat.Openat\<close>, the "open-at-directory-fd" primitive of
  the backing store, is declared in package \<open>syscallcompat\<close>, which is not part of the file
  at hand. It opens the existing file that the name leads to, with a new descriptor, and
  returns descriptor -1 with the error when it fails. Creating a file is not modelled.
\<close>

definition Openat :: "int \<Rightarrow> string \<Rightarrow> goint \<Rightarrow> u32 \<Rightarrow> world \<Rightarrow> (int \<times> error option) \<times> world" where
  "Openat dirfd path flags mode w =
     (case sysenter (SysOpenat dirfd path flags mode) w of
        (Some e, w') \<Rightarrow> ((- 1, Some e), w')
      | (None, w') \<Rightarrow>
          (case names w' (dirfd, path) of
             None \<Rightarrow> ((- 1, Some ENOENT), w')
           | Some ino \<Rightarrow>
               if \<not> may_open (privileged w') (modes w' ino) flags
               then ((- 1, Some EACCES), w')
               else ((next_fd w', None),
                     w'\<lparr>fds := (fds w')(next_fd w' \<mapsto> ino), next_fd := next_fd w' + 1\<rparr>)))"

text \<open>\<open>syscall.Fstat\<close>: the \<open>Stat_t\<close> stays zero when the call fails.\<close>

definition Fstat :: "int \<Rightarrow> world \<Rightarrow> (Stat_t \<times> error option) \<times> world" where
  "Fstat fd w =
     (case sysenter (SysFstat fd) w of
        (Some e, w') \<Rightarrow> ((\<lparr>Mode = 0\<rparr>, Some e), w')
      | (None, w') \<Rightarrow>
          (case fds w' fd of
             None \<Rightarrow> ((\<lparr>Mode = 0\<rparr>, Some EBADF), w')
           | Some ino \<Rightarrow> ((\<lparr>Mode = modes w' ino\<rparr>, None), w')))"

text \<open>The twelve permission bits of a mode, octal 07777; the other bits are the file type.\<close>

definition S_IALLUGO :: u32 where
  "S_IALLUGO = 0xFFF"

text \<open>
  \<open>syscall.Fchmod\<close>: the kernel replaces the permission bits and keeps the file type; a
  call that fails changes nothing.
\<close>

definition Fchmod :: "int \<Rightarrow> u32 \<Rightarrow> world \<Rightarrow> error option \<times> world" where
  "Fchmod fd mode w =
     (case sysenter (SysFchmod fd mode) w of
        (Some e, w') \<Rightarrow> (Some e, w')
      | (None, w') \<Rightarrow>
          (case fds w' fd of
             None \<Rightarrow> (Some EBADF, w')
           | Some ino \<Rightarrow>
               (None, w'\<lparr>modes := (modes w')
                          (ino := (modes w' ino AND NOT S_IALLUGO) OR (mode AND S_IALLUGO))\<rparr>)))"

text \<open>\<open>syscall.Close\<close>: the descriptor is released also when an error is reported.\<close>

definition Close :: "int \<Rightarrow> world \<Rightarrow> error option \<times> world" where
  "Close fd w =
     (case sysenter (SysClose fd) w of
        (r, w') \<Rightarrow>
          (case fds w' fd of
             None \<Rightarrow> (Some EBADF, w')
           | Some ino \<Rightarrow> (r, w'\<lparr>fds := (fds w')(fd := None)\<rparr>)))"

subsection \<open>sync.RWMutex, from the side of one goroutine\<close>

text \<open>
  Each operation returns once the lock is acquired or released; the other goroutines are
  taken to release the lock eventually. \<open>None\<close> is a call that never returns: unlocking a
  lock that is not held is a fatal error of the runtime, and acquiring a lock that the
  goroutine itself holds deadlocks.
\<close>

definition RLock :: "hold \<Rightarrow> hold option" where
  "RLock h = (if h = Unheld then Some Shared else None)"

definition RUnlock :: "hold \<Rightarrow> hold option" where
  "RUnlock h = (if h = Shared then Some Unheld else None)"

definition Lock :: "hold \<Rightarrow> hold option" where
  "Lock h = (if h = Unheld then Some Exclusive else None)"

definition Unlock :: "hold \<Rightarrow> hold option" where
  "Unlock h = (if h = Exclusive then Some Unheld else None)"

text \<open>An operation on \<open>rn.openWriteOnlyLock\<close>, traced.\<close>

definition mu :: "(hold \<Rightarrow> hold option) \<Rightarrow> event \<Rightarrow> world \<Rightarrow> world option" where
  "mu f e w =
     (case f (openWriteOnlyLock (root w)) of
        None \<Rightarrow> None
      | Some h \<Rightarrow> Some (emit e (w\<lparr>root := (root w)\<lparr>openWriteOnlyLock := h\<rparr>\<rparr>)))"

subsection \<open>openWriteOnlyFile\<close>

text \<open>
  The function is embedded in three pieces, one for each \<open>defer\<close> that wraps what
  follows it; a deferred call runs when the piece it wraps has returned, and none of them
  assigns the results \<open>rwFd\<close> and \<open>err\<close>. Octal 0400 is \<open>0x100\<close>.

  Lines 175 to 186, which run with the lock held for writing: the relaxing \<open>Fchmod\<close>,
  the read-write \<open>Openat\<close>, and the deferred reverting \<open>Fchmod\<close>.
\<close>

definition openWriteOnlyFile_locked ::
  "int \<Rightarrow> string \<Rightarrow> goint \<Rightarrow> int \<Rightarrow> u32 \<Rightarrow> world \<Rightarrow> (int \<times> error option) \<times> world" where
  "openWriteOnlyFile_locked dirfd cName newFlags woFd perms w =
     (case Fchmod woFd (perms OR 0x100) w of
        (Some err, w1) \<Rightarrow> ((0, Some err), emit (Log (ChmodFailed err)) w1)
      | (None, w1) \<Rightarrow>
          (case Openat dirfd cName newFlags 0 w1 of
             (r, w2) \<Rightarrow>
               (case Fchmod woFd perms w2 of
                  (Some err2, w3) \<Rightarrow> (r, emit (Log (RevertFailed err2)) w3)
                | (None, w3) \<Rightarrow> (r, w3))))"

text \<open>
  Lines 154 to 173: \<open>Fstat\<close>, the check of the read bit, the upgrade of the lock, and the
  deferred downgrade.
\<close>

definition openWriteOnlyFile_opened ::
  "int \<Rightarrow> string \<Rightarrow> goint \<Rightarrow> int \<Rightarrow> world \<Rightarrow> ((int \<times> error option) \<times> world) option" where
  "openWriteOnlyFile_opened dirfd cName newFlags woFd w =
     (case Fstat woFd w of
        ((st, Some err), w1) \<Rightarrow> Some ((0, Some err), w1)
      | ((st, None), w1) \<Rightarrow>
          (let perms = Mode st
           in if perms AND 0x100 \<noteq> 0
              then Some ((0, Some EPERM), emit (Log (UnexpectedPerms perms)) w1)
              else do {
                w2 \<leftarrow> mu RUnlock MuRUnlock w1;
                w3 \<leftarrow> mu Lock MuLock w2;
                (case openWriteOnlyFile_locked dirfd cName newFlags woFd perms w3 of
                   (r, w4) \<Rightarrow> do {
                     w5 \<leftarrow> mu Unlock MuUnlock w4;
                     w6 \<leftarrow> mu RLock MuRLock w5;
                     Some (r, w6)
                   })
              }))"

text \<open>
  Lines 148 to 153: the write-only \<open>Openat\<close> and the deferred \<open>Close\<close>. \<open>None\<close> is a
  call that does not return.
\<close>

definition openWriteOnlyFile ::
  "oflags \<Rightarrow> int \<Rightarrow> string \<Rightarrow> goint \<Rightarrow> world \<Rightarrow> ((int \<times> error option) \<times> world) option" where
  "openWriteOnlyFile c dirfd cName newFlags w =
     (case Openat dirfd cName (O_WRONLY OR O_NOFOLLOW c) 0 w of
        ((woFd, Some err), w1) \<Rightarrow> Some ((0, Some err), w1)
      | ((woFd, None), w1) \<Rightarrow>
          (case openWriteOnlyFile_opened dirfd cName newFlags woFd w1 of
             None \<Rightarrow> None
           | Some (r, w2) \<Rightarrow> Some (r, snd (Close woFd w2))))"

text \<open>The events that are a chmod, and those that are an operation on the lock.\<close>

definition is_Fchmod :: "event \<Rightarrow> bool" where
  "is_Fchmod e = (case e of SysFchmod fd m \<Rightarrow> True | _ \<Rightarrow> False)"

definition is_Mu :: "event \<Rightarrow> bool" where
  "is_Mu e = (e = MuRUnlock \<or> e = MuLock \<or> e = MuUnlock \<or> e = MuRLock)"

text \<open>
  What lines 149 to 158 obtain when both calls succeed: the write-only descriptor and the
  \<open>Stat_t\<close> of the initial \<open>Fstat\<close>.
\<close>

definition initial_stat :: "oflags \<Rightarrow> int \<Rightarrow> string \<Rightarrow> world \<Rightarrow> (int \<times> Stat_t) option" where
  "initial_stat c dirfd cName w =
     (case Openat dirfd cName (O_WRONLY OR O_NOFOLLOW c) 0 w of
        ((woFd, Some err), w1) \<Rightarrow> None
      | ((woFd, None), w1) \<Rightarrow>
          (case Fstat woFd w1 of
             ((st, Some err), w2) \<Rightarrow> None
           | ((st, None), w2) \<Rightarrow> Some (woFd, st)))"

text \<open>
  The worlds at the two ends of lines 175 to 186, when the call gets that far: the one in
  which \<open>Lock\<close> has just returned, and the one in which \<open>Unlock\<close> is called next.
\<close>

definition exclusive_window ::
  "oflags \<Rightarrow> int \<Rightarrow> string \<Rightarrow> goint \<Rightarrow> world \<Rightarrow> (world \<times> world) option" where
  "exclusive_window c dirfd cName newFlags w =
     (case Openat dirfd cName (O_WRONLY OR O_NOFOLLOW c) 0 w of
        ((woFd, Some err), w1) \<Rightarrow> None
      | ((woFd, None), w1) \<Rightarrow>
          (case Fstat woFd w1 of
             ((st, Some err), w2) \<Rightarrow> None
           | ((st, None), w2) \<Rightarrow>
               if Mode st AND 0x100 \<noteq> 0 then None
               else do {
                 w3 \<leftarrow> mu RUnlock MuRUnlock w2;
                 w4 \<leftarrow> mu Lock MuLock w3;
                 Some (w4, snd (openWriteOnlyFile_locked dirfd cName newFlags woFd (Mode st) w4))
               }))"

text \<open>The mode of an inode at the two ends.\<close>

definition window_modes :: "nat \<Rightarrow> (world \<times> world) option \<Rightarrow> (u32 \<times> u32) option" where
  "window_modes ino win = map_option (\<lambda>x. (modes (fst x) ino, modes (snd x) ino)) win"

subsection \<open>The lock among goroutines\<close>

text \<open>
  A \<open>sync.RWMutex\<close> as all goroutines share it: the goroutines that hold it for reading,
  and the one that holds it for writing, if any.
\<close>

record rwmutex =
  readers :: "nat list"
  writer :: "nat option"

text \<open>
  A lock operation of goroutine \<open>g\<close> that returns when the mutex is in state \<open>m\<close>. \<open>None\<close>:
  it cannot return now. \<open>RLock\<close> waits while the lock is held for writing, \<open>Lock\<close> while it
  is held at all, and unlocking what the goroutine does not hold is an error. Steps that
  are no lock operation leave the mutex alone.
\<close>

definition rw_step :: "nat \<Rightarrow> event \<Rightarrow> rwmutex \<Rightarrow> rwmutex option" where
  "rw_step g e m =
     (if e = MuRLock
      then (if writer m = None then Some (m\<lparr>readers := g # readers m\<rparr>) else None)
      else if e = MuRUnlock
      then (if g \<in> set (readers m) then Some (m\<lparr>readers := remove1 g (readers m)\<rparr>) else None)
      else if e = MuLock
      then (if writer m = None \<and> readers m = [] then Some (m\<lparr>writer := Some g\<rparr>) else None)
      else if e = MuUnlock
      then (if writer m = Some g then Some (m\<lparr>writer := None\<rparr>) else None)
      else Some m)"

text \<open>
  A schedule lists the steps of all goroutines in the order in which they happen;
  \<open>steps_of g\<close> are the steps of goroutine \<open>g\<close>.
\<close>

type_synonym schedule = "(nat \<times> event) list"

definition steps_of :: "nat \<Rightarrow> schedule \<Rightarrow> event list" where
  "steps_of g s = map snd (filter (\<lambda>x. fst x = g) s)"

text \<open>
  Modelled from the spec: the other opens, whose code is not part of the file at hand,
  "hold the lock in shared mode for their whole duration", and the lock "is upgraded to
  exclusive only inside \<open>openWriteOnlyFile\<close>". A schedule is admissible for the goroutine
  \<open>me\<close> that runs \<open>openWriteOnlyFile\<close> when every lock operation returns where the mutex
  lets it, and every other goroutine makes its other steps only while it holds the lock:
  for reading, as an open does, or for writing, as inside an \<open>openWriteOnlyFile\<close> of its
  own.
\<close>

fun admissible :: "nat \<Rightarrow> rwmutex \<Rightarrow> schedule \<Rightarrow> bool" where
  "admissible me m [] = True"
| "admissible me m ((g, e) # s) =
     (case rw_step g e m of
        None \<Rightarrow> False
      | Some m' \<Rightarrow>
          (g = me \<or> is_Mu e \<or> g \<in> set (readers m) \<or> writer m = Some g) \<and>
          admissible me m' s)"

text \<open>Reading the outcome of a run: what was returned, a mode, the trace.\<close>

definition returned :: "('r \<times> world) option \<Rightarrow> 'r option" where
  "returned res = map_option fst res"

definition mode_after :: "nat \<Rightarrow> ('r \<times> world) option \<Rightarrow> u32 option" where
  "mode_after ino res = map_option (\<lambda>x. modes (snd x) ino) res"

definition trace_after :: "('r \<times> world) option \<Rightarrow> event list option" where
  "trace_after res = map_option (\<lambda>x. trace (snd x)) res"

subsection \<open>Concrete inputs\<close>

text \<open>
  Stand-ins for the two helpers, to run the embedding on concrete inputs: a decoder that
  rejects the character \<open>!\<close>, and a block decryption that rejects a block shorter than two
  bytes (handing back what it was given, next to the error) and otherwise drops the first
  two bytes.
\<close>

definition demo_nt :: NameTransformer where
  "demo_nt = \<lparr>B64DecodeString =
     (\<lambda>s. if CHR ''!'' \<in> set s then ([], Some (Err ''illegal base64 data'')) else (s, None))\<rparr>"

definition demo_ce :: ContentEnc where
  "demo_ce = \<lparr>DecryptBlock =
     (\<lambda>ct blk fid. if length ct < 2 then (ct, Some (Err ''Block is too short''))
        else (drop 2 ct, None))\<rparr>"

definition demo_root :: "bool \<Rightarrow> RootNode" where
  "demo_root plain = \<lparr>args = \<lparr>PlaintextNames = plain\<rparr>, dirIVLock = Unheld,
     nameTransform = demo_nt, contentEnc = demo_ce, openWriteOnlyLock = Shared,
     MitigatedCorruptions = None, IsIdle = 1\<rparr>"

text \<open>The root node during a check of the filesystem: a consumer has registered a channel.\<close>

definition demo_root_fsck :: RootNode where
  "demo_root_fsck = (demo_root False)\<lparr>MitigatedCorruptions := Some \<lparr>sent = [], closed = False\<rparr>\<rparr>"

text \<open>
  A world with one backing file, \<open>f\<close> in the directory open as descriptor 3, of inode 7 and
  mode \<open>m\<close>, for an unprivileged process that holds the lock for reading.
\<close>

definition demo_world :: "u32 \<Rightarrow> error option list \<Rightarrow> world" where
  "demo_world m fs = \<lparr>root = demo_root False, names = [(3, ''f'') \<mapsto> 7],
     modes = (\<lambda>_. 0)(7 := m), fds = [3 \<mapsto> 2], next_fd = 4, privileged = False,
     faults = fs, nsys = 0, trace = []\<rparr>"


text \<open>
  A schedule of three goroutines: goroutine 0 runs \<open>openWriteOnlyFile\<close> on the file of
  mode 0200, goroutine 1 runs an open before the upgrade of the lock, goroutine 2 one
  after the downgrade.
\<close>

definition demo_schedule :: schedule where
  "demo_schedule =
     [(1, MuRLock), (0, SysOpenat 3 ''f'' 0x20001 0), (1, SysOpenat 3 ''g'' 0x20000 0),
      (0, SysFstat 4), (1, SysClose 5), (1, MuRUnlock),
      (0, MuRUnlock), (0, MuLock),
      (0, SysFchmod 4 0x8180), (0, SysOpenat 3 ''f'' 0x20002 0), (0, SysFchmod 4 0x8080),
      (0, MuUnlock), (2, MuRLock), (0, MuRLock), (2, SysOpenat 3 ''g'' 0x20000 0),
      (0, SysClose 4), (2, MuRUnlock)]"

text \<open>
  A schedule for the run in which the reverting chmod fails: goroutine 1 takes the lock
  for reading and opens the file once goroutine 0 has unlocked.
\<close>

definition demo_schedule_failed_revert :: schedule where
  "demo_schedule_failed_revert =
     [(0, SysOpenat 3 ''f'' 0x20001 0), (0, SysFstat 4), (0, MuRUnlock), (0, MuLock),
      (0, SysFchmod 4 0x8180), (0, SysOpenat 3 ''f'' 0x20002 0), (0, SysFchmod 4 0x8080),
      (0, Log (RevertFailed EROFS)), (0, MuUnlock),
      (1, MuRLock), (1, SysOpenat 3 ''f'' 0x20000 0),
      (0, MuRLock), (0, SysClose 4), (1, SysClose 6), (1, MuRUnlock)]"

text \<open>
  A schedule in which goroutine 1 runs an \<open>openWriteOnlyFile\<close> of its own, on another
  file, before goroutine 0 gets the lock for writing.
\<close>

definition demo_schedule_two_upgrades :: schedule where
  "demo_schedule_two_upgrades =
     [(0, SysOpenat 3 ''f'' 0x20001 0), (1, SysOpenat 3 ''g'' 0x20001 0), (0, SysFstat 4),
      (1, SysFstat 5), (0, MuRUnlock), (1, MuRUnlock), (1, MuLock),
      (1, SysFchmod 5 0x8180), (1, SysOpenat 3 ''g'' 0x20002 0), (1, SysFchmod 5 0x8080),
      (1, MuUnlock), (0, MuLock),
      (0, SysFchmod 4 0x8180), (0, SysOpenat 3 ''f'' 0x20002 0), (0, SysFchmod 4 0x8080),
      (0, MuUnlock), (1, MuRLock), (0, MuRLock), (1, SysClose 5), (0, SysClose 4)]"

section \<open>Bits\<close>

lemma and_zeroD: "x AND y = 0 \<Longrightarrow> bit x n \<Longrightarrow> \<not> bit y n" for x y :: "'a::len word"
  by (metis bit_and_iff bit_0_eq bot_apply bot_bool_def)

lemma subbitsD: "b AND k = b \<Longrightarrow> bit b n \<Longrightarrow> bit k n" for b k :: "'a::len word"
  by (metis bit_and_iff)

lemma O_ACCMODE_mask: "O_ACCMODE = mask 2"
  by (simp add: O_ACCMODE_def mask_eq_exp_minus_1)

lemma less_two_cases: "n < 2 \<longleftrightarrow> n = 0 \<or> n = Suc 0" for n :: nat
  by auto

text \<open>The access mode of a flags value is its two lowest bits.\<close>

lemma accmode_eq_iff:
  "x AND O_ACCMODE = y AND O_ACCMODE \<longleftrightarrow>
     (bit x 0 = bit y 0) \<and> (bit x (Suc 0) = bit y (Suc 0))"
  for x y :: goint
proof
  assume "x AND O_ACCMODE = y AND O_ACCMODE"
  then have "bit (x AND mask 2) n = bit (y AND mask 2) n" for n
    by (simp add: O_ACCMODE_mask)
  from this [of 0] this [of "Suc 0"]
  show "(bit x 0 = bit y 0) \<and> (bit x (Suc 0) = bit y (Suc 0))"
    by (simp add: bit_and_iff bit_mask_iff)
next
  assume "(bit x 0 = bit y 0) \<and> (bit x (Suc 0) = bit y (Suc 0))"
  then show "x AND O_ACCMODE = y AND O_ACCMODE"
    unfolding O_ACCMODE_mask
    by (intro bit_eqI) (auto simp: bit_and_iff bit_mask_iff less_two_cases)
qed

lemma accmode_WRONLY_iff:
  "x AND O_ACCMODE = O_WRONLY \<longleftrightarrow> bit x 0 \<and> \<not> bit x (Suc 0)" for x :: goint
proof -
  have "O_WRONLY = O_WRONLY AND O_ACCMODE"
    by (simp add: O_WRONLY_def O_ACCMODE_def)
  then have "x AND O_ACCMODE = O_WRONLY \<longleftrightarrow> x AND O_ACCMODE = O_WRONLY AND O_ACCMODE"
    by simp
  also have "\<dots> \<longleftrightarrow> bit x 0 \<and> \<not> bit x (Suc 0)"
    unfolding accmode_eq_iff by (simp add: O_WRONLY_def)
  finally show ?thesis .
qed

lemma accmode_RDWR_iff:
  "x AND O_ACCMODE = O_RDWR \<longleftrightarrow> \<not> bit x 0 \<and> bit x (Suc 0)" for x :: goint
proof -
  have "O_RDWR = O_RDWR AND O_ACCMODE"
    by (simp add: O_RDWR_def O_ACCMODE_def)
  then have "x AND O_ACCMODE = O_RDWR \<longleftrightarrow> x AND O_ACCMODE = O_RDWR AND O_ACCMODE"
    by simp
  also have "\<dots> \<longleftrightarrow> \<not> bit x 0 \<and> bit x (Suc 0)"
    unfolding accmode_eq_iff by (simp add: O_RDWR_def bit_Suc)
  finally show ?thesis .
qed

lemma accmode_bits:
  "bit O_WRONLY 0" "\<not> bit O_WRONLY (Suc 0)" "\<not> bit O_RDWR 0" "bit O_RDWR (Suc 0)"
  by (simp_all add: O_WRONLY_def O_RDWR_def bit_Suc)

lemma oflags_okD:
  assumes "oflags_ok c"
  shows "\<not> bit (O_APPEND c) 0" "\<not> bit (O_APPEND c) (Suc 0)"
    "\<not> bit (O_DIRECT c) 0" "\<not> bit (O_DIRECT c) (Suc 0)"
    "\<not> bit (O_CREAT c) 0" "\<not> bit (O_CREAT c) (Suc 0)"
    "\<not> bit (O_NOFOLLOW c) 0" "\<not> bit (O_NOFOLLOW c) (Suc 0)"
    "bit (O_NOFOLLOW c) n \<Longrightarrow> \<not> bit (O_APPEND c) n"
    "bit (O_NOFOLLOW c) n \<Longrightarrow> \<not> bit (O_DIRECT c) n"
    "bit (O_NOFOLLOW c) n \<Longrightarrow> \<not> bit (O_CREAT c) n"
proof -
  from assms
  have a: "(O_APPEND c OR O_DIRECT c OR O_CREAT c OR O_NOFOLLOW c) AND mask 2 = 0"
    and b: "(O_APPEND c OR O_DIRECT c OR O_CREAT c) AND O_NOFOLLOW c = 0"
    by (simp_all add: oflags_ok_def O_ACCMODE_mask)
  have a': "\<not> bit (O_APPEND c OR O_DIRECT c OR O_CREAT c OR O_NOFOLLOW c) k" if "k < 2" for k
    using and_zeroD [OF a, of k] that by (auto simp: bit_mask_iff)
  show "\<not> bit (O_APPEND c) 0" "\<not> bit (O_APPEND c) (Suc 0)"
    "\<not> bit (O_DIRECT c) 0" "\<not> bit (O_DIRECT c) (Suc 0)"
    "\<not> bit (O_CREAT c) 0" "\<not> bit (O_CREAT c) (Suc 0)"
    "\<not> bit (O_NOFOLLOW c) 0" "\<not> bit (O_NOFOLLOW c) (Suc 0)"
    using a' [of 0] a' [of "Suc 0"] by (simp_all add: bit_or_iff)
  show "bit (O_NOFOLLOW c) n \<Longrightarrow> \<not> bit (O_APPEND c) n"
    "bit (O_NOFOLLOW c) n \<Longrightarrow> \<not> bit (O_DIRECT c) n"
    "bit (O_NOFOLLOW c) n \<Longrightarrow> \<not> bit (O_CREAT c) n"
    using and_zeroD [OF b, of n] by (auto simp: bit_or_iff)
qed

lemma oflags_ok_linux_amd64: "oflags_ok linux_amd64"
  by (simp add: oflags_ok_def linux_amd64_def O_ACCMODE_def)

lemma oflags_ok_darwin: "oflags_ok darwin"
  by (simp add: oflags_ok_def darwin_def O_ACCMODE_def)

text \<open>The two lowest bits of the mangled flags, in terms of those of the request.\<close>

lemma mangleOpenFlags_bit0:
  assumes "oflags_ok c"
  shows "bit (mangleOpenFlags c rn flags) 0 \<longleftrightarrow> bit flags 0 \<and> bit flags (Suc 0)"
  using oflags_okD(1-8) [OF assms] accmode_bits
  by (auto simp: mangleOpenFlags_def Let_def accmode_WRONLY_iff bit_and_iff bit_or_iff
      bit_xor_iff bit_not_iff bit_ucast_iff)

lemma mangleOpenFlags_bit1:
  assumes "oflags_ok c"
  shows "bit (mangleOpenFlags c rn flags) (Suc 0) \<longleftrightarrow> bit flags 0 \<or> bit flags (Suc 0)"
  using oflags_okD(1-8) [OF assms] accmode_bits
  by (auto simp: mangleOpenFlags_def Let_def accmode_WRONLY_iff bit_and_iff bit_or_iff
      bit_xor_iff bit_not_iff bit_ucast_iff)

lemma mangleOpenFlags_strips:
  assumes "\<And>n. bit (O_NOFOLLOW c) n \<Longrightarrow> \<not> bit x n"
    and "x = O_APPEND c \<or> x = O_DIRECT c \<or> x = O_CREAT c"
  shows "mangleOpenFlags c rn flags AND x = 0"
  using assms
  by (auto simp: bit_eq_iff mangleOpenFlags_def Let_def bit_and_iff bit_or_iff bit_not_iff)

section \<open>mangleOpenFlags\<close>

text \<open>
  C1. For every requested flags value, and whatever other bits it carries: a write-only
  access mode comes out as read-write (so the result is never write-only), the append,
  direct-I/O and create bits are clear in the result, and the no-follow bit is set. The
  flag constants are those of any platform on which the four flags lie outside the
  access-mode bits and the no-follow bit is none of the stripped ones.
\<close>

theorem mangleOpenFlags_policy:
  assumes "oflags_ok c"
  shows "((ucast flags :: goint) AND O_ACCMODE = O_WRONLY \<longrightarrow>
            mangleOpenFlags c rn flags AND O_ACCMODE = O_RDWR) \<and>
         mangleOpenFlags c rn flags AND O_ACCMODE \<noteq> O_WRONLY \<and>
         mangleOpenFlags c rn flags AND O_APPEND c = 0 \<and>
         mangleOpenFlags c rn flags AND O_DIRECT c = 0 \<and>
         mangleOpenFlags c rn flags AND O_CREAT c = 0 \<and>
         mangleOpenFlags c rn flags AND O_NOFOLLOW c = O_NOFOLLOW c"
proof -
  note b0 = mangleOpenFlags_bit0 [OF assms] and b1 = mangleOpenFlags_bit1 [OF assms]
  note ok = oflags_okD [OF assms]
  have 1: "(ucast flags :: goint) AND O_ACCMODE = O_WRONLY \<longrightarrow>
            mangleOpenFlags c rn flags AND O_ACCMODE = O_RDWR"
    by (simp add: accmode_WRONLY_iff accmode_RDWR_iff b0 b1 bit_ucast_iff)
  have 2: "mangleOpenFlags c rn flags AND O_ACCMODE \<noteq> O_WRONLY"
    by (simp add: accmode_WRONLY_iff b0 b1)
  have 3: "mangleOpenFlags c rn flags AND O_APPEND c = 0"
    by (rule mangleOpenFlags_strips) (simp_all add: ok(9))
  have 4: "mangleOpenFlags c rn flags AND O_DIRECT c = 0"
    by (rule mangleOpenFlags_strips) (simp_all add: ok(10))
  have 5: "mangleOpenFlags c rn flags AND O_CREAT c = 0"
    by (rule mangleOpenFlags_strips) (simp_all add: ok(11))
  have 6: "mangleOpenFlags c rn flags AND O_NOFOLLOW c = O_NOFOLLOW c"
    by (simp add: mangleOpenFlags_def Let_def)
  from 1 2 3 4 5 6 show ?thesis by blast
qed

text \<open>
  On linux/amd64, a request with \<open>O_WRONLY\<close>, \<open>O_CREAT\<close>, \<open>O_APPEND\<close> and \<open>O_DIRECT\<close>
  (0x4441) is opened with \<open>O_RDWR\<close> and \<open>O_NOFOLLOW\<close> (0x20002).
\<close>

theorem mangleOpenFlags_policy_witness:
  "oflags_ok linux_amd64 \<and>
   (ucast (0x4441 :: u32) :: goint) AND O_ACCMODE = O_WRONLY \<and>
   mangleOpenFlags linux_amd64 (demo_root False) 0x4441 AND O_ACCMODE = O_RDWR \<and>
   mangleOpenFlags linux_amd64 (demo_root False) 0x4441 AND O_APPEND linux_amd64 = 0 \<and>
   mangleOpenFlags linux_amd64 (demo_root False) 0x4441 AND O_NOFOLLOW linux_amd64
     = O_NOFOLLOW linux_amd64 \<and>
   mangleOpenFlags linux_amd64 (demo_root False) 0x4441 = 0x20002"
proof -
  have w: "(ucast (0x4441 :: u32) :: goint) AND O_ACCMODE = O_WRONLY"
    by (simp add: O_ACCMODE_def O_WRONLY_def)
  have v: "mangleOpenFlags linux_amd64 (demo_root False) 0x4441 = 0x20002"
    by (simp add: mangleOpenFlags_def linux_amd64_def O_ACCMODE_def O_WRONLY_def O_RDWR_def)
  from mangleOpenFlags_policy [OF oflags_ok_linux_amd64, of "0x4441" "demo_root False"] w v
  show ?thesis
    using oflags_ok_linux_amd64 by simp
qed

text \<open>
  C10. When the access mode of the request is not write-only, the access mode of the
  result is that of the request; in particular read-only stays read-only and read-write
  stays read-write. The result depends on the flags alone, not on the root node, which
  the function only receives.
\<close>

theorem mangleOpenFlags_keeps_access_mode:
  assumes "oflags_ok c"
  shows "((ucast flags :: goint) AND O_ACCMODE \<noteq> O_WRONLY \<longrightarrow>
            mangleOpenFlags c rn flags AND O_ACCMODE = ucast flags AND O_ACCMODE) \<and>
         ((ucast flags :: goint) AND O_ACCMODE = O_RDONLY \<longrightarrow>
            mangleOpenFlags c rn flags AND O_ACCMODE = O_RDONLY) \<and>
         ((ucast flags :: goint) AND O_ACCMODE = O_RDWR \<longrightarrow>
            mangleOpenFlags c rn flags AND O_ACCMODE = O_RDWR) \<and>
         mangleOpenFlags c rn flags = mangleOpenFlags c rn' flags"
proof -
  note b0 = mangleOpenFlags_bit0 [OF assms] and b1 = mangleOpenFlags_bit1 [OF assms]
  have 1: "(ucast flags :: goint) AND O_ACCMODE \<noteq> O_WRONLY \<longrightarrow>
            mangleOpenFlags c rn flags AND O_ACCMODE = ucast flags AND O_ACCMODE"
    by (auto simp: accmode_WRONLY_iff accmode_eq_iff b0 b1 bit_ucast_iff)
  have ne: "O_RDONLY \<noteq> O_WRONLY" "O_RDWR \<noteq> O_WRONLY"
    by (simp_all add: O_RDONLY_def O_RDWR_def O_WRONLY_def)
  have 2: "(ucast flags :: goint) AND O_ACCMODE = O_RDONLY \<longrightarrow>
            mangleOpenFlags c rn flags AND O_ACCMODE = O_RDONLY"
    using 1 ne(1) by metis
  have 3: "(ucast flags :: goint) AND O_ACCMODE = O_RDWR \<longrightarrow>
            mangleOpenFlags c rn flags AND O_ACCMODE = O_RDWR"
    using 1 ne(2) by metis
  have 4: "mangleOpenFlags c rn flags = mangleOpenFlags c rn' flags"
    by (simp add: mangleOpenFlags_def)
  from 1 2 3 4 show ?thesis by blast
qed

text \<open>
  On linux/amd64, a read-only request with \<open>O_APPEND\<close> (0x400) and a read-write request
  with \<open>O_CREAT\<close> (0x42) keep their access modes, on a root node in either naming mode.
\<close>

theorem mangleOpenFlags_keeps_access_mode_witness:
  "oflags_ok linux_amd64 \<and>
   (ucast (0x400 :: u32) :: goint) AND O_ACCMODE = O_RDONLY \<and>
   mangleOpenFlags linux_amd64 (demo_root False) 0x400 AND O_ACCMODE = O_RDONLY \<and>
   (ucast (0x42 :: u32) :: goint) AND O_ACCMODE = O_RDWR \<and>
   mangleOpenFlags linux_amd64 (demo_root False) 0x42 AND O_ACCMODE = O_RDWR \<and>
   mangleOpenFlags linux_amd64 (demo_root False) 0x42
     = mangleOpenFlags linux_amd64 (demo_root True) 0x42"
proof -
  have a: "(ucast (0x400 :: u32) :: goint) AND O_ACCMODE = O_RDONLY"
    and b: "(ucast (0x42 :: u32) :: goint) AND O_ACCMODE = O_RDWR"
    by (simp_all add: O_ACCMODE_def O_RDONLY_def O_RDWR_def)
  from mangleOpenFlags_keeps_access_mode
         [OF oflags_ok_linux_amd64, of "0x400" "demo_root False" "demo_root True"]
       mangleOpenFlags_keeps_access_mode
         [OF oflags_ok_linux_amd64, of "0x42" "demo_root False" "demo_root True"]
       a b oflags_ok_linux_amd64
  show ?thesis by blast
qed


section \<open>isFiltered\<close>

text \<open>
  C5. For every path, \<open>isFiltered\<close> returns true exactly when plaintext-names mode is on
  and the path is the reserved configuration filename. Every call, whatever its argument
  and result, stores zero in \<open>IsIdle\<close>, and changes nothing else of the root node.
\<close>

theorem isFiltered_exactly_conf_and_resets_idle:
  "fst (isFiltered rn path) = (PlaintextNames (args rn) \<and> path = ConfDefaultName) \<and>
   IsIdle (fst (snd (isFiltered rn path))) = 0 \<and>
   fst (snd (isFiltered rn path)) = rn\<lparr>IsIdle := 0\<rparr>"
  by (simp add: isFiltered_def Let_def)

text \<open>
  C9. In plaintext-names mode every path other than the configuration filename passes,
  the directory-IV marker filename among them; with plaintext-names mode off every path
  passes, the configuration filename included.
\<close>

theorem isFiltered_reserves_conf_only:
  "(PlaintextNames (args rn) \<and> path \<noteq> ConfDefaultName \<longrightarrow> \<not> fst (isFiltered rn path)) \<and>
   (PlaintextNames (args rn) \<longrightarrow> \<not> fst (isFiltered rn DirIVFilename)) \<and>
   (\<not> PlaintextNames (args rn) \<longrightarrow>
      \<not> fst (isFiltered rn path) \<and> \<not> fst (isFiltered rn ConfDefaultName))"
  by (simp add: isFiltered_def Let_def ConfDefaultName_def DirIVFilename_def)

text \<open>
  With plaintext names, \<open>notes.txt\<close> and \<open>gocryptfs.diriv\<close> pass; with encrypted names,
  \<open>gocryptfs.conf\<close> passes.
\<close>

theorem isFiltered_reserves_conf_only_witness:
  "PlaintextNames (args (demo_root True)) \<and> ''notes.txt'' \<noteq> ConfDefaultName \<and>
   \<not> fst (isFiltered (demo_root True) ''notes.txt'') \<and>
   \<not> fst (isFiltered (demo_root True) ''gocryptfs.diriv'') \<and>
   \<not> PlaintextNames (args (demo_root False)) \<and>
   \<not> fst (isFiltered (demo_root False) ''gocryptfs.conf'')"
proof -
  have p: "PlaintextNames (args (demo_root True))" "\<not> PlaintextNames (args (demo_root False))"
    by (simp_all add: demo_root_def)
  have n: "''notes.txt'' \<noteq> ConfDefaultName"
    by (simp add: ConfDefaultName_def)
  from isFiltered_reserves_conf_only [of "demo_root True" "''notes.txt''"]
       isFiltered_reserves_conf_only [of "demo_root False" "''notes.txt''"] p n
  show ?thesis
    by (simp add: ConfDefaultName_def DirIVFilename_def)
qed

section \<open>decryptSymlinkTarget\<close>

text \<open>
  C4. On the empty string the result is the empty string with a nil error, and no call is
  made: neither to the base64 decoder nor to the block decryption.
\<close>

theorem decryptSymlinkTarget_empty:
  "decryptSymlinkTarget rn '''' = (('''', None), [])"
  by (simp add: decryptSymlinkTarget_def)

text \<open>
  C7. On a non-empty string the first call decodes the input. If the decoder reports an
  error, that error is returned with the empty string and nothing is decrypted. Otherwise
  the decoded bytes are decrypted in one call, as block 0 and without a file id; if that
  call reports an error, the error is returned with the empty string, whatever bytes came
  with it, and otherwise its bytes are the result. So an error never comes with a
  non-empty string.
\<close>

theorem decryptSymlinkTarget_nonempty:
  assumes "cData64 \<noteq> ''''"
    and "B64DecodeString (nameTransform rn) cData64 = (cData, e1)"
    and "DecryptBlock (contentEnc rn) cData 0 [] = (data, e2)"
    and "decryptSymlinkTarget rn cData64 = ((s, err), calls)"
  shows "(e1 \<noteq> None \<longrightarrow> err = e1 \<and> s = '''' \<and> calls = [CallB64DecodeString cData64]) \<and>
         (e1 = None \<longrightarrow>
            calls = [CallB64DecodeString cData64, CallDecryptBlock cData 0 []] \<and>
            (e2 \<noteq> None \<longrightarrow> err = e2 \<and> s = '''') \<and>
            (e2 = None \<longrightarrow> err = None \<and> s = data)) \<and>
         (err \<noteq> None \<longrightarrow> s = '''')"
  using assms
  by (auto simp: decryptSymlinkTarget_def split: option.splits)

text \<open>
  With the stand-ins: \<open>a!\<close> is rejected by the decoder; \<open>x\<close> decodes, and its block is
  rejected, so that the byte handed back with the error is dropped; \<open>hello\<close> decodes and
  decrypts.
\<close>

theorem decryptSymlinkTarget_nonempty_witness:
  "''a!'' \<noteq> '''' \<and>
   B64DecodeString (nameTransform (demo_root False)) ''a!''
     = ([], Some (Err ''illegal base64 data'')) \<and>
   decryptSymlinkTarget (demo_root False) ''a!''
     = (('''', Some (Err ''illegal base64 data'')), [CallB64DecodeString ''a!'']) \<and>
   B64DecodeString (nameTransform (demo_root False)) ''x'' = (''x'', None) \<and>
   DecryptBlock (contentEnc (demo_root False)) ''x'' 0 []
     = (''x'', Some (Err ''Block is too short'')) \<and>
   decryptSymlinkTarget (demo_root False) ''x''
     = (('''', Some (Err ''Block is too short'')),
        [CallB64DecodeString ''x'', CallDecryptBlock ''x'' 0 []]) \<and>
   decryptSymlinkTarget (demo_root False) ''hello''
     = ((''llo'', None), [CallB64DecodeString ''hello'', CallDecryptBlock ''hello'' 0 []])"
proof -
  have b: "B64DecodeString (nameTransform (demo_root False)) ''a!''
             = ([], Some (Err ''illegal base64 data''))"
    "B64DecodeString (nameTransform (demo_root False)) ''x'' = (''x'', None)"
    "B64DecodeString (nameTransform (demo_root False)) ''hello'' = (''hello'', None)"
    by (simp_all add: demo_root_def demo_nt_def)
  have d: "DecryptBlock (contentEnc (demo_root False)) [] 0 [] = ([], Some (Err ''Block is too short''))"
    "DecryptBlock (contentEnc (demo_root False)) ''x'' 0 [] = (''x'', Some (Err ''Block is too short''))"
    "DecryptBlock (contentEnc (demo_root False)) ''hello'' 0 [] = (''llo'', None)"
    by (simp_all add: demo_root_def demo_ce_def)
  obtain s1 err1 calls1
    where r1: "decryptSymlinkTarget (demo_root False) ''a!'' = ((s1, err1), calls1)"
    by (metis surj_pair)
  obtain s2 err2 calls2
    where r2: "decryptSymlinkTarget (demo_root False) ''x'' = ((s2, err2), calls2)"
    by (metis surj_pair)
  obtain s3 err3 calls3
    where r3: "decryptSymlinkTarget (demo_root False) ''hello'' = ((s3, err3), calls3)"
    by (metis surj_pair)
  from decryptSymlinkTarget_nonempty [OF _ b(1) d(1) r1]
       decryptSymlinkTarget_nonempty [OF _ b(2) d(2) r2]
       decryptSymlinkTarget_nonempty [OF _ b(3) d(3) r3]
  have "s1 = '''' \<and> err1 = Some (Err ''illegal base64 data'') \<and> calls1 = [CallB64DecodeString ''a!'']"
    "s2 = '''' \<and> err2 = Some (Err ''Block is too short'') \<and>
       calls2 = [CallB64DecodeString ''x'', CallDecryptBlock ''x'' 0 []]"
    "s3 = ''llo'' \<and> err3 = None \<and>
       calls3 = [CallB64DecodeString ''hello'', CallDecryptBlock ''hello'' 0 []]"
    by simp_all
  with r1 r2 r3 b d show ?thesis by simp
qed

section \<open>reportMitigatedCorruption\<close>

text \<open>
  A \<open>select\<close> with a case that can proceed from the instant \<open>d\<close> on does not block for
  ever, and has run one of its cases by then.
\<close>

lemma fold_min_le: "fold min ts t0 \<le> t0 \<and> (\<forall>t\<in>set ts. fold min ts t0 \<le> t)" for t0 :: nat
proof (induction ts arbitrary: t0)
  case Nil
  then show ?case by simp
next
  case (Cons a ts)
  from Cons.IH [of "min a t0"] show ?case
    by auto
qed

lemma fold_min_in: "fold min ts t0 \<in> set (t0 # ts)" for t0 :: nat
proof (induction ts arbitrary: t0)
  case Nil
  then show ?case by simp
next
  case (Cons a ts)
  from Cons.IH [of "min a t0"] show ?case
    by (auto simp: min_def split: if_splits)
qed

lemma ready_times_member: "(c, Some d) \<in> set cs \<Longrightarrow> d \<in> set (ready_times cs)"
  by (induction cs rule: ready_times.induct) auto

lemma can_proceed_nonempty: "t \<in> set (ready_times cs) \<Longrightarrow> can_proceed t cs \<noteq> []"
  by (induction cs rule: ready_times.induct) auto

lemma can_proceed_subset: "set (can_proceed t cs) \<subseteq> fst ` set cs"
  by (induction t cs rule: can_proceed.induct) auto

lemma select_bounded:
  assumes "(c, Some d) \<in> set cs"
  shows "\<exists>t x. select cs n = Some (t, x) \<and> t \<le> d \<and> x \<in> fst ` set cs"
proof -
  from ready_times_member [OF assms] obtain t0 ts
    where rt: "ready_times cs = t0 # ts" and d: "d \<in> set (t0 # ts)"
    by (cases "ready_times cs") auto
  let ?t = "fold min ts t0"
  let ?now = "can_proceed ?t cs"
  from fold_min_le [of ts t0] d have le: "?t \<le> d"
    by auto
  from fold_min_in [of ts t0] rt have "?now \<noteq> []"
    by (simp add: can_proceed_nonempty)
  then have "n mod length ?now < length ?now"
    by simp
  then have "?now ! (n mod length ?now) \<in> set ?now"
    by (rule nth_mem)
  with can_proceed_subset [of ?t cs] have "?now ! (n mod length ?now) \<in> fst ` set cs"
    by blast
  with rt le show ?thesis
    by (simp add: select_def Let_def)
qed

text \<open>When only the timer can proceed, it is the timer that runs, on time.\<close>

lemma select_timer_only:
  "select [(CaseSend, None), (CaseTimer, Some d)] n = Some (d, CaseTimer)"
  by (simp add: select_def)

text \<open>
  C6. With no channel registered the call returns at once, and has done nothing: nothing
  is sent or logged, and the root node is as before. With a channel registered on which a
  send never can proceed, because its consumer does not drain it, the call returns when
  the timer fires after one second, and has logged the warning and sent nothing. With a
  channel registered, and not closed, the call returns within one second whatever the
  consumer does: it does not block for ever.
\<close>

theorem reportMitigatedCorruption_bounded:
  "(MitigatedCorruptions rn = None \<longrightarrow>
      reportMitigatedCorruption rn item env = Returns (rn, [], 0)) \<and>
   (MitigatedCorruptions rn = Some ch \<and> \<not> closed ch \<and> send_ready env = None \<longrightarrow>
      reportMitigatedCorruption rn item env
        = Returns (rn, [SelTimer second, SelLog ReportTimeout], second)) \<and>
   (MitigatedCorruptions rn = Some ch \<and> \<not> closed ch \<longrightarrow>
      (\<exists>rn' evs t. reportMitigatedCorruption rn item env = Returns (rn', evs, t) \<and>
         t \<le> second))"
proof (intro conjI impI)
  assume "MitigatedCorruptions rn = None"
  then show "reportMitigatedCorruption rn item env = Returns (rn, [], 0)"
    by (simp add: reportMitigatedCorruption_def)
next
  assume "MitigatedCorruptions rn = Some ch \<and> \<not> closed ch \<and> send_ready env = None"
  then show "reportMitigatedCorruption rn item env
        = Returns (rn, [SelTimer second, SelLog ReportTimeout], second)"
    by (simp add: reportMitigatedCorruption_def select_timer_only)
next
  assume a: "MitigatedCorruptions rn = Some ch \<and> \<not> closed ch"
  let ?cs = "[(CaseSend, send_ready env), (CaseTimer, Some (1 * second))]"
  have "(CaseTimer, Some (1 * second)) \<in> set ?cs"
    by simp
  from select_bounded [OF this, of "pick env"] obtain t x
    where s: "select ?cs (pick env) = Some (t, x)" and t: "t \<le> second"
    by auto
  show "\<exists>rn' evs t. reportMitigatedCorruption rn item env = Returns (rn', evs, t) \<and> t \<le> second"
  proof (cases x)
    case CaseSend
    with a s t show ?thesis
      by (simp add: reportMitigatedCorruption_def)
  next
    case CaseTimer
    with a s t show ?thesis
      by (simp add: reportMitigatedCorruption_def)
  qed
qed

text \<open>
  Without a channel; with a channel that nobody drains; with a channel whose consumer
  takes the item after a quarter of a second.
\<close>

theorem reportMitigatedCorruption_bounded_witness:
  "MitigatedCorruptions (demo_root True) = None \<and>
   reportMitigatedCorruption (demo_root True) ''bad.name'' \<lparr>send_ready = None, pick = 0\<rparr>
     = Returns (demo_root True, [], 0) \<and>
   MitigatedCorruptions demo_root_fsck = Some \<lparr>sent = [], closed = False\<rparr> \<and>
   \<not> closed \<lparr>sent = [], closed = False\<rparr> \<and>
   reportMitigatedCorruption demo_root_fsck ''bad.name'' \<lparr>send_ready = None, pick = 0\<rparr>
     = Returns (demo_root_fsck, [SelTimer 1000000000, SelLog ReportTimeout], 1000000000) \<and>
   reportMitigatedCorruption demo_root_fsck ''bad.name'' \<lparr>send_ready = Some 250000000, pick = 0\<rparr>
     = Returns (demo_root_fsck\<lparr>MitigatedCorruptions := Some \<lparr>sent = [''bad.name''], closed = False\<rparr>\<rparr>,
         [SelSend ''bad.name''], 250000000)"
proof -
  have n: "MitigatedCorruptions (demo_root True) = None"
    by (simp add: demo_root_def)
  have c: "MitigatedCorruptions demo_root_fsck = Some \<lparr>sent = [], closed = False\<rparr>"
    "\<not> closed \<lparr>sent = [], closed = False\<rparr>"
    by (simp_all add: demo_root_fsck_def)
  have e: "send_ready \<lparr>send_ready = None, pick = 0\<rparr> = None"
    by simp
  note t = reportMitigatedCorruption_bounded
    [where rn = "demo_root True" and item = "''bad.name''"
       and env = "\<lparr>send_ready = None, pick = 0\<rparr>"]
  note u = reportMitigatedCorruption_bounded
    [where rn = demo_root_fsck and ch = "\<lparr>sent = [], closed = False\<rparr>"
       and item = "''bad.name''" and env = "\<lparr>send_ready = None, pick = 0\<rparr>"]
  have 1: "reportMitigatedCorruption (demo_root True) ''bad.name'' \<lparr>send_ready = None, pick = 0\<rparr>
     = Returns (demo_root True, [], 0)"
    using t n by blast
  have 2: "reportMitigatedCorruption demo_root_fsck ''bad.name'' \<lparr>send_ready = None, pick = 0\<rparr>
     = Returns (demo_root_fsck, [SelTimer 1000000000, SelLog ReportTimeout], 1000000000)"
    using u c e by (simp add: second_def)
  have 3: "reportMitigatedCorruption demo_root_fsck ''bad.name'' \<lparr>send_ready = Some 250000000, pick = 0\<rparr>
     = Returns (demo_root_fsck\<lparr>MitigatedCorruptions := Some \<lparr>sent = [''bad.name''], closed = False\<rparr>\<rparr>,
         [SelSend ''bad.name''], 250000000)"
    by (simp add: reportMitigatedCorruption_def demo_root_fsck_def demo_root_def select_def
        second_def)
  from n c 1 2 3 show ?thesis by blast
qed

text \<open>
  Without the timer case the same \<open>select\<close> blocks for ever on a channel that nobody
  drains; and a send on a closed channel panics.
\<close>

lemma select_without_timer_blocks: "select [(CaseSend, None)] n = None"
  by (simp add: select_def)

lemma reportMitigatedCorruption_closed:
  "MitigatedCorruptions rn = Some ch \<Longrightarrow> closed ch \<Longrightarrow>
     reportMitigatedCorruption rn item env = Panics"
  by (simp add: reportMitigatedCorruption_def select_def second_def)

section \<open>openWriteOnlyFile\<close>

subsection \<open>Permission bits under chmod\<close>

lemma chmod_relax:
  "b AND k = b \<Longrightarrow> (m AND NOT k) OR ((m OR b) AND k) = m OR b" for m k b :: "'a::len word"
  by (rule bit_eqI) (auto simp: bit_and_iff bit_or_iff bit_not_iff dest: subbitsD)

lemma chmod_revert:
  "b AND k = b \<Longrightarrow> ((m OR b) AND NOT k) OR (m AND k) = m" for m k b :: "'a::len word"
  by (rule bit_eqI) (auto simp: bit_and_iff bit_or_iff bit_not_iff dest: subbitsD)

lemma relaxed_differs:
  fixes m :: u32
  assumes "m AND 0x100 = 0" shows "m OR 0x100 \<noteq> m"
proof
  assume "m OR 0x100 = m"
  then have "m AND 0x100 = (m OR 0x100) AND 0x100" by simp
  also have "\<dots> = 0x100" by (simp only: word_ao_absorbs)
  finally show False using assms by simp
qed

lemma read_bit_is_permission_bit: "(0x100 :: u32) AND S_IALLUGO = 0x100" by (simp add: S_IALLUGO_def)

subsection \<open>What each kernel call and lock operation does to the world\<close>

lemma Openat_run:
  assumes "Openat d p f m w = (r, w')"
  shows "trace w' = trace w @ [SysOpenat d p f m]" "modes w' = modes w" "root w' = root w"
    "nsys w' = Suc (nsys w)" "faults w' = faults w" "names w' = names w"
    "privileged w' = privileged w" "next_fd w \<le> next_fd w'"
    "fd < next_fd w \<Longrightarrow> fds w' fd = fds w fd"
    "snd r = None \<Longrightarrow> fst r = next_fd w \<and> next_fd w' = next_fd w + 1 \<and>
        injected w (nsys w) = None \<and>
        (\<exists>ino. names w (d, p) = Some ino \<and> fds w' (next_fd w) = Some ino \<and>
          may_open (privileged w) (modes w ino) f)"
  using assms
  by (auto simp: Openat_def sysenter_def split: option.splits if_splits)

lemma Fstat_run:
  assumes "Fstat fd w = (r, w')"
  shows "w' = w\<lparr>nsys := nsys w + 1, trace := trace w @ [SysFstat fd]\<rparr>"
    "snd r = None \<Longrightarrow> injected w (nsys w) = None \<and> (\<exists>ino. fds w fd = Some ino \<and> Mode (fst r) = modes w ino)"
  using assms
  by (auto simp: Fstat_def sysenter_def split: option.splits if_splits)

lemma Fchmod_run:
  assumes "Fchmod fd mode w = (r, w')"
  shows "trace w' = trace w @ [SysFchmod fd mode]" "root w' = root w"
    "nsys w' = Suc (nsys w)" "faults w' = faults w" "names w' = names w"
    "privileged w' = privileged w" "next_fd w' = next_fd w" "fds w' = fds w"
    "r \<noteq> None \<Longrightarrow> modes w' = modes w"
    "r = None \<Longrightarrow> \<exists>ino. fds w fd = Some ino \<and>
        modes w' = (modes w)(ino := (modes w ino AND NOT S_IALLUGO) OR (mode AND S_IALLUGO))"
    "fds w fd = Some ino \<Longrightarrow> r = injected w (nsys w)"
  using assms
  by (auto simp: Fchmod_def sysenter_def split: option.splits if_splits)

lemma Close_run:
  assumes "Close fd w = (r, w')"
  shows "trace w' = trace w @ [SysClose fd]" "root w' = root w" "modes w' = modes w"
  using assms
  by (auto simp: Close_def sysenter_def split: option.splits if_splits)

subsection \<open>The three pieces of openWriteOnlyFile\<close>

text \<open>
  The piece that runs with the lock held for writing: it issues the relaxing chmod and,
  if that succeeded, the reverting chmod with the mode it was given; unless the reverting
  chmod failed, all modes are as before.
\<close>

lemma locked_run:
  assumes run: "openWriteOnlyFile_locked dirfd cName newFlags woFd perms w = (r, w')"
    and fd: "fds w woFd = Some ino" and lt: "woFd < next_fd w" and pm: "modes w ino = perms"
  shows "root w' = root w \<and>
    (\<exists>evs. trace w' = trace w @ evs \<and> (\<forall>e\<in>set evs. \<not> is_Mu e) \<and>
       (filter is_Fchmod evs = [SysFchmod woFd (perms OR 0x100), SysFchmod woFd perms] \<or>
        filter is_Fchmod evs = [SysFchmod woFd (perms OR 0x100)] \<and>
          (\<exists>e. Log (ChmodFailed e) \<in> set evs \<and> r = (0, Some e)) \<and>
          (\<forall>e. Log (RevertFailed e) \<notin> set evs)) \<and>
       ((\<forall>e. Log (RevertFailed e) \<notin> set evs) \<longrightarrow> modes w' = modes w) \<and>
       ((\<exists>e. Log (RevertFailed e) \<in> set evs) \<longrightarrow> modes w' ino = perms OR 0x100))"
proof -
  obtain r1 w1 where F1: "Fchmod woFd (perms OR 0x100) w = (r1, w1)" by force
  note f1 = Fchmod_run [OF F1]
  show ?thesis
  proof (cases r1)
    case (Some err)
    with run F1 have "r = (0, Some err)" "w' = emit (Log (ChmodFailed err)) w1"
      by (simp_all add: openWriteOnlyFile_locked_def)
    with f1 Some show ?thesis
      by (simp add: emit_def is_Fchmod_def is_Mu_def)
  next
    case None
    obtain r2 w2 where O2: "Openat dirfd cName newFlags 0 w1 = (r2, w2)" by (metis surj_pair)
    obtain r3 w3 where F3: "Fchmod woFd perms w2 = (r3, w3)" by force
    note o2 = Openat_run [OF O2]
    note f3 = Fchmod_run [OF F3]
    from f1(10) [OF None] fd pm
    have m1: "modes w1 = (modes w)(ino := perms OR 0x100)"
      by (simp add: chmod_relax [OF read_bit_is_permission_bit])
    from lt f1 o2(9) [of woFd] fd have fd2: "fds w2 woFd = Some ino" by simp
    have r: "r = r2" and w': "w' = (case r3 of None \<Rightarrow> w3 | Some e \<Rightarrow> emit (Log (RevertFailed e)) w3)"
      using run F1 None O2 F3 by (auto simp: openWriteOnlyFile_locked_def split: option.splits)
    show ?thesis
    proof (cases r3)
      case (Some e2)
      from f3(9) o2(2) m1 Some have "modes w3 ino = perms OR 0x100"
        by simp
      with Some w' f1(1-8) o2(1-8) f3(1-8) show ?thesis
        by (simp add: emit_def is_Fchmod_def is_Mu_def)
    next
      case r3: None
      from f3(10) [OF r3] fd2 o2(2) m1
      have "modes w3 = modes w"
        by (auto simp: chmod_revert [OF read_bit_is_permission_bit] pm [symmetric])
      with r3 w' f1 o2 f3 show ?thesis
        by (simp add: emit_def is_Fchmod_def is_Mu_def)
    qed
  qed
qed


lemma initial_stat_SomeD:
  assumes "initial_stat c dirfd cName w = Some (woFd, st)"
  obtains w1 w2 where "Openat dirfd cName (O_WRONLY OR O_NOFOLLOW c) 0 w = ((woFd, None), w1)"
    and "Fstat woFd w1 = ((st, None), w2)"
  using assms by (auto simp: initial_stat_def split: prod.splits option.splits)

lemma initial_stat_NoneD:
  assumes "initial_stat c dirfd cName w = None"
  obtains (openat) fd e w1 where "Openat dirfd cName (O_WRONLY OR O_NOFOLLOW c) 0 w = ((fd, Some e), w1)"
  | (fstat) woFd w1 st e w2 where "Openat dirfd cName (O_WRONLY OR O_NOFOLLOW c) 0 w = ((woFd, None), w1)"
    and "Fstat woFd w1 = ((st, Some e), w2)"
  using assms by (auto simp: initial_stat_def split: prod.splits option.splits)

text \<open>The three ways through the whole function.\<close>

lemma early_return:
  assumes "initial_stat c dirfd cName w = None"
  shows "\<exists>e w' evs. openWriteOnlyFile c dirfd cName newFlags w = Some ((0, Some e), w') \<and>
           trace w' = trace w @ evs \<and> (\<forall>x\<in>set evs. \<not> is_Fchmod x \<and> \<not> is_Mu x) \<and>
           modes w' = modes w \<and> root w' = root w \<and>
           (snd (fst (Openat dirfd cName (O_WRONLY OR O_NOFOLLOW c) 0 w)) = Some e \<or>
            (\<exists>woFd w1. Openat dirfd cName (O_WRONLY OR O_NOFOLLOW c) 0 w = ((woFd, None), w1) \<and>
               snd (fst (Fstat woFd w1)) = Some e)) \<and>
           exclusive_window c dirfd cName newFlags w = None"
  using assms
proof (cases rule: initial_stat_NoneD)
  case (openat fd e w1)
  with Openat_run [OF openat] show ?thesis
    by (simp add: openWriteOnlyFile_def exclusive_window_def is_Fchmod_def is_Mu_def)
next
  case (fstat woFd w1 st e w2)
  obtain rc wc where C: "Close woFd w2 = (rc, wc)" by (metis surj_pair)
  from fstat C Openat_run [OF fstat(1)] Fstat_run(1) [OF fstat(2)] Close_run [OF C]
  show ?thesis
    by (simp add: openWriteOnlyFile_def openWriteOnlyFile_opened_def exclusive_window_def
        is_Fchmod_def is_Mu_def)
qed

lemma readable_return:
  assumes "initial_stat c dirfd cName w = Some (woFd, st)" and "Mode st AND 0x100 \<noteq> 0"
  shows "\<exists>w' evs. openWriteOnlyFile c dirfd cName newFlags w = Some ((0, Some EPERM), w') \<and>
           trace w' = trace w @ evs \<and> (\<forall>x\<in>set evs. \<not> is_Fchmod x \<and> \<not> is_Mu x) \<and>
           modes w' = modes w \<and> root w' = root w \<and>
           exclusive_window c dirfd cName newFlags w = None"
proof -
  from assms(1) obtain w1 w2
    where O1: "Openat dirfd cName (O_WRONLY OR O_NOFOLLOW c) 0 w = ((woFd, None), w1)"
      and S: "Fstat woFd w1 = ((st, None), w2)"
    by (rule initial_stat_SomeD)
  obtain rc wc where C: "Close woFd (emit (Log (UnexpectedPerms (Mode st))) w2) = (rc, wc)"
    by (metis surj_pair)
  from O1 S C assms(2) Openat_run [OF O1] Fstat_run(1) [OF S] Close_run [OF C]
  show ?thesis
    by (simp add: openWriteOnlyFile_def openWriteOnlyFile_opened_def exclusive_window_def
        is_Fchmod_def is_Mu_def emit_def)
qed

lemma writeonly_return:
  assumes "initial_stat c dirfd cName w = Some (woFd, st)" and "Mode st AND 0x100 = 0"
    and "openWriteOnlyLock (root w) = Shared"
  shows "\<exists>r w' mid. openWriteOnlyFile c dirfd cName newFlags w = Some (r, w') \<and>
           trace w' = trace w @ [SysOpenat dirfd cName (O_WRONLY OR O_NOFOLLOW c) 0, SysFstat woFd]
              @ [MuRUnlock, MuLock] @ mid @ [MuUnlock, MuRLock] @ [SysClose woFd] \<and>
           (\<forall>e\<in>set mid. \<not> is_Mu e) \<and>
           (filter is_Fchmod mid = [SysFchmod woFd (Mode st OR 0x100), SysFchmod woFd (Mode st)] \<or>
            filter is_Fchmod mid = [SysFchmod woFd (Mode st OR 0x100)] \<and>
              (\<exists>e. Log (ChmodFailed e) \<in> set mid \<and> r = (0, Some e)) \<and>
              (\<forall>e. Log (RevertFailed e) \<notin> set mid)) \<and>
           ((\<forall>e. Log (RevertFailed e) \<notin> set mid) \<longrightarrow> modes w' = modes w) \<and>
           openWriteOnlyLock (root w') = Shared \<and>
           (\<exists>ino. names w (dirfd, cName) = Some ino \<and> Mode st = modes w ino \<and>
              ((\<exists>e. Log (RevertFailed e) \<in> set mid) \<longrightarrow> modes w' ino = Mode st OR 0x100)) \<and>
           (\<exists>wl wu. exclusive_window c dirfd cName newFlags w = Some (wl, wu) \<and>
              trace wl = trace w @ [SysOpenat dirfd cName (O_WRONLY OR O_NOFOLLOW c) 0, SysFstat woFd]
                @ [MuRUnlock, MuLock] \<and>
              trace wu = trace wl @ mid \<and> modes wl = modes w \<and> modes w' = modes wu)"
proof -
  from assms(1) obtain w1 w2
    where O1: "Openat dirfd cName (O_WRONLY OR O_NOFOLLOW c) 0 w = ((woFd, None), w1)"
      and S: "Fstat woFd w1 = ((st, None), w2)"
    by (rule initial_stat_SomeD)
  note o1 = Openat_run [OF O1]
  note s = Fstat_run [OF S]
  from o1(10) obtain ino where wo: "woFd = next_fd w" and nx: "next_fd w1 = next_fd w + 1"
    and nm: "names w (dirfd, cName) = Some ino" and fd1: "fds w1 woFd = Some ino"
    by auto
  from s(2) fd1 o1(2) have st: "Mode st = modes w ino" by simp
  define w3 where "w3 = emit MuRUnlock (w2\<lparr>root := (root w2)\<lparr>openWriteOnlyLock := Unheld\<rparr>\<rparr>)"
  define w4 where "w4 = emit MuLock (w3\<lparr>root := (root w3)\<lparr>openWriteOnlyLock := Exclusive\<rparr>\<rparr>)"
  have l2: "openWriteOnlyLock (root w2) = Shared"
    using assms(3) o1(3) s(1) by simp
  have m3: "mu RUnlock MuRUnlock w2 = Some w3"
    using l2 by (simp add: mu_def RUnlock_def w3_def)
  have m4: "mu Lock MuLock w3 = Some w4"
    by (simp add: mu_def Lock_def w3_def w4_def emit_def)
  obtain r w5 where L: "openWriteOnlyFile_locked dirfd cName newFlags woFd (Mode st) w4 = (r, w5)"
    by (metis surj_pair)
  have fd4: "fds w4 woFd = Some ino" "woFd < next_fd w4" "modes w4 ino = Mode st"
    "trace w4 = trace w @ [SysOpenat dirfd cName (O_WRONLY OR O_NOFOLLOW c) 0, SysFstat woFd, MuRUnlock, MuLock]"
    "modes w4 = modes w" "openWriteOnlyLock (root w4) = Exclusive"
    using fd1 wo nx st o1(1,2) by (simp_all add: w4_def w3_def emit_def s(1))
  from locked_run [OF L fd4(1-3)] obtain mid where
    l: "root w5 = root w4" "trace w5 = trace w4 @ mid" "\<forall>e\<in>set mid. \<not> is_Mu e"
      "filter is_Fchmod mid = [SysFchmod woFd (Mode st OR 0x100), SysFchmod woFd (Mode st)] \<or>
        filter is_Fchmod mid = [SysFchmod woFd (Mode st OR 0x100)] \<and>
          (\<exists>e. Log (ChmodFailed e) \<in> set mid \<and> r = (0, Some e)) \<and>
              (\<forall>e. Log (RevertFailed e) \<notin> set mid)"
      "(\<forall>e. Log (RevertFailed e) \<notin> set mid) \<longrightarrow> modes w5 = modes w4"
      "(\<exists>e. Log (RevertFailed e) \<in> set mid) \<longrightarrow> modes w5 ino = Mode st OR 0x100"
    by blast
  define w6 where "w6 = emit MuUnlock (w5\<lparr>root := (root w5)\<lparr>openWriteOnlyLock := Unheld\<rparr>\<rparr>)"
  define w7 where "w7 = emit MuRLock (w6\<lparr>root := (root w6)\<lparr>openWriteOnlyLock := Shared\<rparr>\<rparr>)"
  have m6: "mu Unlock MuUnlock w5 = Some w6"
    using l(1) fd4(6) by (simp add: mu_def Unlock_def w6_def)
  have m7: "mu RLock MuRLock w6 = Some w7"
    by (simp add: mu_def RLock_def w6_def w7_def emit_def)
  obtain rc wc where C: "Close woFd w7 = (rc, wc)" by (metis surj_pair)
  note c = Close_run [OF C]
  have run: "openWriteOnlyFile c dirfd cName newFlags w = Some (r, wc)"
    using O1 S assms(2) m3 m4 L m6 m7 C
    by (simp add: openWriteOnlyFile_def openWriteOnlyFile_opened_def)
  have tr: "trace wc = trace w @ [SysOpenat dirfd cName (O_WRONLY OR O_NOFOLLOW c) 0, SysFstat woFd]
              @ [MuRUnlock, MuLock] @ mid @ [MuUnlock, MuRLock] @ [SysClose woFd]"
    using c(1) l(2) fd4(4) by (simp add: w7_def w6_def emit_def)
  have md: "modes wc = modes w5" and lk: "openWriteOnlyLock (root wc) = Shared"
    using c(2,3) by (simp_all add: w7_def w6_def emit_def)
  have win: "exclusive_window c dirfd cName newFlags w = Some (w4, w5)"
    using O1 S assms(2) m3 m4 L by (simp add: exclusive_window_def)
  from fd4(4) have tl: "trace w4 = trace w @ [SysOpenat dirfd cName (O_WRONLY OR O_NOFOLLOW c) 0, SysFstat woFd]
                @ [MuRUnlock, MuLock]"
    by simp
  from win tl l(2) fd4(5) md
  have "\<exists>wl wu. exclusive_window c dirfd cName newFlags w = Some (wl, wu) \<and>
              trace wl = trace w @ [SysOpenat dirfd cName (O_WRONLY OR O_NOFOLLOW c) 0, SysFstat woFd]
                @ [MuRUnlock, MuLock] \<and>
              trace wu = trace wl @ mid \<and> modes wl = modes w \<and> modes wc = modes wu"
    by blast
  with run tr md lk l(3,4,5,6) fd4(5) nm st show ?thesis
    by auto
qed


subsection \<open>A file that is readable already\<close>

text \<open>
  C2, as stated, fails: a file of mode 0444 (\<open>0x8124\<close> with the file type) has read
  access, and for an unprivileged process the initial write-only open is refused, so that
  \<open>EACCES\<close> is returned and not \<open>EPERM\<close>.
\<close>

theorem openWriteOnlyFile_readable_counterexample:
  "names (demo_world 0x8124 []) (3, ''f'') = Some 7 \<and>
   modes (demo_world 0x8124 []) 7 AND 0x100 \<noteq> 0 \<and>
   returned (openWriteOnlyFile linux_amd64 3 ''f'' 0x20002 (demo_world 0x8124 []))
     = Some (0, Some EACCES) \<and>
   returned (openWriteOnlyFile linux_amd64 3 ''f'' 0x20002 (demo_world 0x8124 []))
     \<noteq> Some (0, Some EPERM)"
  by (simp add: returned_def demo_world_def openWriteOnlyFile_def Openat_def sysenter_def
      injected_def may_open_def linux_amd64_def O_WRONLY_def O_ACCMODE_def O_RDONLY_def
      EACCES_def EPERM_def)

text \<open>
  C2, amended. When the initial write-only open and the \<open>Fstat\<close> succeed and the mode
  that the \<open>Fstat\<close> reports has the read bit, \<open>openWriteOnlyFile\<close> returns \<open>EPERM\<close> with
  descriptor 0, issues no chmod and leaves every mode as it was. When the initial open or
  the \<open>Fstat\<close> fails, it returns the error of that call with descriptor 0, again without
  any chmod.
\<close>

theorem openWriteOnlyFile_readable:
  "(initial_stat c dirfd cName w = Some (woFd, st) \<and> Mode st AND 0x100 \<noteq> 0 \<longrightarrow>
      (\<exists>w' evs. openWriteOnlyFile c dirfd cName newFlags w = Some ((0, Some EPERM), w') \<and>
         trace w' = trace w @ evs \<and> (\<forall>x\<in>set evs. \<not> is_Fchmod x) \<and> modes w' = modes w)) \<and>
   (initial_stat c dirfd cName w = None \<longrightarrow>
      (\<exists>e w' evs. openWriteOnlyFile c dirfd cName newFlags w = Some ((0, Some e), w') \<and>
         trace w' = trace w @ evs \<and> (\<forall>x\<in>set evs. \<not> is_Fchmod x) \<and> modes w' = modes w \<and>
         (snd (fst (Openat dirfd cName (O_WRONLY OR O_NOFOLLOW c) 0 w)) = Some e \<or>
          (\<exists>woFd w1. Openat dirfd cName (O_WRONLY OR O_NOFOLLOW c) 0 w = ((woFd, None), w1) \<and>
             snd (fst (Fstat woFd w1)) = Some e))))"
proof (intro conjI impI)
  assume "initial_stat c dirfd cName w = Some (woFd, st) \<and> Mode st AND 0x100 \<noteq> 0"
  then show "\<exists>w' evs. openWriteOnlyFile c dirfd cName newFlags w = Some ((0, Some EPERM), w') \<and>
         trace w' = trace w @ evs \<and> (\<forall>x\<in>set evs. \<not> is_Fchmod x) \<and> modes w' = modes w"
    using readable_return [of c dirfd cName w woFd st newFlags] by blast
next
  assume "initial_stat c dirfd cName w = None"
  then show "\<exists>e w' evs. openWriteOnlyFile c dirfd cName newFlags w = Some ((0, Some e), w') \<and>
         trace w' = trace w @ evs \<and> (\<forall>x\<in>set evs. \<not> is_Fchmod x) \<and> modes w' = modes w \<and>
         (snd (fst (Openat dirfd cName (O_WRONLY OR O_NOFOLLOW c) 0 w)) = Some e \<or>
          (\<exists>woFd w1. Openat dirfd cName (O_WRONLY OR O_NOFOLLOW c) 0 w = ((woFd, None), w1) \<and>
             snd (fst (Fstat woFd w1)) = Some e))"
    using early_return [of c dirfd cName w newFlags] by blast
qed

text \<open>
  A file of mode 0644 (\<open>0x81A4\<close>) is opened and its mode read: \<open>EPERM\<close>, the trace has no
  chmod, the mode stays. For the file of mode 0444 the initial open fails.
\<close>

theorem openWriteOnlyFile_readable_witness:
  "initial_stat linux_amd64 3 ''f'' (demo_world 0x81A4 []) = Some (4, \<lparr>Mode = 0x81A4\<rparr>) \<and>
   Mode \<lparr>Mode = 0x81A4\<rparr> AND 0x100 \<noteq> 0 \<and>
   returned (openWriteOnlyFile linux_amd64 3 ''f'' 0x20002 (demo_world 0x81A4 []))
     = Some (0, Some EPERM) \<and>
   trace_after (openWriteOnlyFile linux_amd64 3 ''f'' 0x20002 (demo_world 0x81A4 []))
     = Some [SysOpenat 3 ''f'' 0x20001 0, SysFstat 4, Log (UnexpectedPerms 0x81A4), SysClose 4] \<and>
   mode_after 7 (openWriteOnlyFile linux_amd64 3 ''f'' 0x20002 (demo_world 0x81A4 []))
     = Some 0x81A4 \<and>
   initial_stat linux_amd64 3 ''f'' (demo_world 0x8124 []) = None \<and>
   mode_after 7 (openWriteOnlyFile linux_amd64 3 ''f'' 0x20002 (demo_world 0x8124 []))
     = Some 0x8124"
proof -
  have i: "initial_stat linux_amd64 3 ''f'' (demo_world 0x81A4 []) = Some (4, \<lparr>Mode = 0x81A4\<rparr>)"
    "initial_stat linux_amd64 3 ''f'' (demo_world 0x8124 []) = None"
    by (simp_all add: initial_stat_def demo_world_def Openat_def Fstat_def sysenter_def
        injected_def may_open_def linux_amd64_def O_WRONLY_def O_ACCMODE_def O_RDONLY_def)
  have m: "Mode \<lparr>Mode = 0x81A4\<rparr> AND 0x100 \<noteq> 0"
    by simp
  from openWriteOnlyFile_readable
         [of linux_amd64 3 "''f''" "demo_world 0x81A4 []" 4 "\<lparr>Mode = 0x81A4\<rparr>" "0x20002"] i(1) m
  obtain w' evs
    where a: "openWriteOnlyFile linux_amd64 3 ''f'' 0x20002 (demo_world 0x81A4 [])
                = Some ((0, Some EPERM), w')"
      and "trace w' = trace (demo_world 0x81A4 []) @ evs" "modes w' = modes (demo_world 0x81A4 [])"
    by blast
  then have a': "returned (openWriteOnlyFile linux_amd64 3 ''f'' 0x20002 (demo_world 0x81A4 []))
       = Some (0, Some EPERM)"
    "mode_after 7 (openWriteOnlyFile linux_amd64 3 ''f'' 0x20002 (demo_world 0x81A4 []))
       = Some 0x81A4"
    by (simp_all add: returned_def mode_after_def demo_world_def)
  from openWriteOnlyFile_readable
         [of linux_amd64 3 "''f''" "demo_world 0x8124 []" 4 "\<lparr>Mode = 0x81A4\<rparr>" "0x20002"] i(2)
  obtain e w'' where "openWriteOnlyFile linux_amd64 3 ''f'' 0x20002 (demo_world 0x8124 [])
                = Some ((0, Some e), w'')" "modes w'' = modes (demo_world 0x8124 [])"
    by blast
  then have b': "mode_after 7 (openWriteOnlyFile linux_amd64 3 ''f'' 0x20002 (demo_world 0x8124 []))
       = Some 0x8124"
    by (simp add: mode_after_def demo_world_def)
  have t: "trace_after (openWriteOnlyFile linux_amd64 3 ''f'' 0x20002 (demo_world 0x81A4 []))
     = Some [SysOpenat 3 ''f'' 0x20001 0, SysFstat 4, Log (UnexpectedPerms 0x81A4), SysClose 4]"
    by (simp add: trace_after_def demo_world_def openWriteOnlyFile_def
        openWriteOnlyFile_opened_def Openat_def Fstat_def Close_def sysenter_def emit_def
        injected_def may_open_def linux_amd64_def O_WRONLY_def O_ACCMODE_def O_RDONLY_def)
  from i m a' b' t show ?thesis by blast
qed

subsection \<open>A file that is write-only\<close>

text \<open>
  C3, as stated, fails: on a file of mode 0200 (\<open>0x8080\<close>), when everything succeeds except
  the reverting chmod (the fifth system call, failing here with \<open>EROFS\<close>), the call
  returns the read-write descriptor with a nil error and the file is left with mode 0600
  (\<open>0x8180\<close>), not with the mode of the initial stat.
\<close>

theorem openWriteOnlyFile_restores_counterexample:
  "initial_stat linux_amd64 3 ''f'' (demo_world 0x8080 [None, None, None, None, Some EROFS])
     = Some (4, \<lparr>Mode = 0x8080\<rparr>) \<and>
   Mode \<lparr>Mode = 0x8080\<rparr> AND 0x100 = 0 \<and>
   returned (openWriteOnlyFile linux_amd64 3 ''f'' 0x20002
       (demo_world 0x8080 [None, None, None, None, Some EROFS])) = Some (5, None) \<and>
   mode_after 7 (openWriteOnlyFile linux_amd64 3 ''f'' 0x20002
       (demo_world 0x8080 [None, None, None, None, Some EROFS])) = Some 0x8180 \<and>
   mode_after 7 (openWriteOnlyFile linux_amd64 3 ''f'' 0x20002
       (demo_world 0x8080 [None, None, None, None, Some EROFS])) \<noteq> Some 0x8080"
  by (simp add: initial_stat_def returned_def mode_after_def demo_world_def demo_root_def
      openWriteOnlyFile_def openWriteOnlyFile_opened_def openWriteOnlyFile_locked_def
      Openat_def Fstat_def Fchmod_def Close_def sysenter_def emit_def mu_def
      RLock_def RUnlock_def Lock_def Unlock_def injected_def may_open_def S_IALLUGO_def
      linux_amd64_def O_WRONLY_def O_ACCMODE_def O_RDONLY_def Let_def)

text \<open>
  C3, amended. Let the initial write-only open and the \<open>Fstat\<close> succeed, the mode that the
  \<open>Fstat\<close> reports (the mode of the backing file) lack the read bit, and the caller hold
  the lock for reading. Then the call returns, and the chmods that it issues are the
  relaxing one and, whenever that one succeeded, whether the read-write open then
  succeeds or fails, a reverting one whose argument is the mode of the initial stat. When
  the relaxing chmod fails, its error is returned. After the return every mode is as
  before the call unless the reverting chmod failed, which the code logs; in that case
  the file keeps the read bit.
\<close>

theorem openWriteOnlyFile_restores:
  assumes "initial_stat c dirfd cName w = Some (woFd, st)"
    and "Mode st AND 0x100 = 0"
    and "openWriteOnlyLock (root w) = Shared"
  shows "\<exists>r w' evs ino. openWriteOnlyFile c dirfd cName newFlags w = Some (r, w') \<and>
           trace w' = trace w @ evs \<and>
           names w (dirfd, cName) = Some ino \<and> Mode st = modes w ino \<and>
           (filter is_Fchmod evs = [SysFchmod woFd (Mode st OR 0x100), SysFchmod woFd (Mode st)] \<or>
            filter is_Fchmod evs = [SysFchmod woFd (Mode st OR 0x100)] \<and>
              (\<exists>e. Log (ChmodFailed e) \<in> set evs \<and> r = (0, Some e)) \<and>
              (\<forall>e. Log (RevertFailed e) \<notin> set evs)) \<and>
           ((\<forall>e. Log (RevertFailed e) \<notin> set evs) \<longrightarrow> modes w' = modes w) \<and>
           ((\<exists>e. Log (RevertFailed e) \<in> set evs) \<longrightarrow>
              modes w' ino = Mode st OR 0x100 \<and> modes w' ino \<noteq> modes w ino)"
proof -
  from writeonly_return [OF assms, of newFlags] obtain r w' mid ino
    where run: "openWriteOnlyFile c dirfd cName newFlags w = Some (r, w')"
      and tr: "trace w' = trace w @ [SysOpenat dirfd cName (O_WRONLY OR O_NOFOLLOW c) 0, SysFstat woFd]
              @ [MuRUnlock, MuLock] @ mid @ [MuUnlock, MuRLock] @ [SysClose woFd]"
      and ch: "filter is_Fchmod mid = [SysFchmod woFd (Mode st OR 0x100), SysFchmod woFd (Mode st)] \<or>
            filter is_Fchmod mid = [SysFchmod woFd (Mode st OR 0x100)] \<and>
              (\<exists>e. Log (ChmodFailed e) \<in> set mid \<and> r = (0, Some e)) \<and>
              (\<forall>e. Log (RevertFailed e) \<notin> set mid)"
      and ok: "(\<forall>e. Log (RevertFailed e) \<notin> set mid) \<longrightarrow> modes w' = modes w"
      and nm: "names w (dirfd, cName) = Some ino" "Mode st = modes w ino"
      and bad: "(\<exists>e. Log (RevertFailed e) \<in> set mid) \<longrightarrow> modes w' ino = Mode st OR 0x100"
    by blast
  define evs where "evs = [SysOpenat dirfd cName (O_WRONLY OR O_NOFOLLOW c) 0, SysFstat woFd]
              @ [MuRUnlock, MuLock] @ mid @ [MuUnlock, MuRLock] @ [SysClose woFd]"
  have f: "filter is_Fchmod evs = filter is_Fchmod mid"
    and l: "Log x \<in> set evs \<longleftrightarrow> Log x \<in> set mid" for x
    by (auto simp: evs_def is_Fchmod_def)
  from relaxed_differs [OF assms(2)] nm(2)
  have d: "Mode st OR 0x100 \<noteq> modes w ino" by simp
  from run tr ch ok nm bad d show ?thesis
    unfolding evs_def [symmetric] f [symmetric] l [symmetric] by auto
qed

text \<open>
  The file of mode 0200, with the read-write open failing (the fourth system call, with
  \<open>EMFILE\<close>): the error is returned with descriptor -1, and the mode is back at 0200.
\<close>

theorem openWriteOnlyFile_restores_witness:
  "initial_stat linux_amd64 3 ''f'' (demo_world 0x8080 [None, None, None, Some (Errno 24)])
     = Some (4, \<lparr>Mode = 0x8080\<rparr>) \<and>
   Mode \<lparr>Mode = 0x8080\<rparr> AND 0x100 = 0 \<and>
   openWriteOnlyLock (root (demo_world 0x8080 [None, None, None, Some (Errno 24)])) = Shared \<and>
   returned (openWriteOnlyFile linux_amd64 3 ''f'' 0x20002
       (demo_world 0x8080 [None, None, None, Some (Errno 24)])) = Some (- 1, Some (Errno 24)) \<and>
   trace_after (openWriteOnlyFile linux_amd64 3 ''f'' 0x20002
       (demo_world 0x8080 [None, None, None, Some (Errno 24)]))
     = Some [SysOpenat 3 ''f'' 0x20001 0, SysFstat 4, MuRUnlock, MuLock, SysFchmod 4 0x8180,
         SysOpenat 3 ''f'' 0x20002 0, SysFchmod 4 0x8080, MuUnlock, MuRLock, SysClose 4] \<and>
   mode_after 7 (openWriteOnlyFile linux_amd64 3 ''f'' 0x20002
       (demo_world 0x8080 [None, None, None, Some (Errno 24)])) = Some 0x8080"
proof -
  let ?w = "demo_world 0x8080 [None, None, None, Some (Errno 24)]"
  have i: "initial_stat linux_amd64 3 ''f'' ?w = Some (4, \<lparr>Mode = 0x8080\<rparr>)"
    by (simp add: initial_stat_def demo_world_def Openat_def Fstat_def sysenter_def
        injected_def may_open_def linux_amd64_def O_WRONLY_def O_ACCMODE_def O_RDONLY_def)
  have m: "Mode \<lparr>Mode = 0x8080\<rparr> AND 0x100 = 0"
    by simp
  have h: "openWriteOnlyLock (root ?w) = Shared"
    by (simp add: demo_world_def demo_root_def)
  have t: "trace_after (openWriteOnlyFile linux_amd64 3 ''f'' 0x20002 ?w)
     = Some [SysOpenat 3 ''f'' 0x20001 0, SysFstat 4, MuRUnlock, MuLock, SysFchmod 4 0x8180,
         SysOpenat 3 ''f'' 0x20002 0, SysFchmod 4 0x8080, MuUnlock, MuRLock, SysClose 4]"
    and r: "returned (openWriteOnlyFile linux_amd64 3 ''f'' 0x20002 ?w) = Some (- 1, Some (Errno 24))"
    by (simp_all add: trace_after_def returned_def demo_world_def demo_root_def
      openWriteOnlyFile_def openWriteOnlyFile_opened_def openWriteOnlyFile_locked_def
      Openat_def Fstat_def Fchmod_def Close_def sysenter_def emit_def mu_def
      RLock_def RUnlock_def Lock_def Unlock_def injected_def may_open_def S_IALLUGO_def
      linux_amd64_def O_WRONLY_def O_ACCMODE_def O_RDONLY_def Let_def)
  from openWriteOnlyFile_restores [OF i m h, of "0x20002"] obtain r' w' evs
    where run: "openWriteOnlyFile linux_amd64 3 ''f'' 0x20002 ?w = Some (r', w')"
      and tr: "trace w' = trace ?w @ evs"
      and ok: "(\<forall>e. Log (RevertFailed e) \<notin> set evs) \<longrightarrow> modes w' = modes ?w"
    by blast
  from run tr t have "evs = [SysOpenat 3 ''f'' 0x20001 0, SysFstat 4, MuRUnlock, MuLock,
         SysFchmod 4 0x8180, SysOpenat 3 ''f'' 0x20002 0, SysFchmod 4 0x8080, MuUnlock, MuRLock,
         SysClose 4]"
    by (simp add: trace_after_def demo_world_def)
  with ok have "modes w' = modes ?w" by simp
  with run have md: "mode_after 7 (openWriteOnlyFile linux_amd64 3 ''f'' 0x20002 ?w) = Some 0x8080"
    by (simp add: mode_after_def demo_world_def)
  from i m h r t md show ?thesis by blast
qed

subsection \<open>The lock among goroutines\<close>

lemma steps_of_member: "x \<in> set s \<Longrightarrow> fst x = g \<Longrightarrow> snd x \<in> set (steps_of g s)"
  by (auto simp: steps_of_def)

text \<open>Cutting a schedule at a step of one goroutine.\<close>

lemma steps_of_split:
  "steps_of g s = xs @ e # ys \<Longrightarrow>
     \<exists>s1 s2. s = s1 @ (g, e) # s2 \<and> steps_of g s1 = xs \<and> steps_of g s2 = ys"
proof (induction s arbitrary: xs)
  case Nil
  then show ?case by (simp add: steps_of_def)
next
  case (Cons a s)
  obtain h e' where a: "a = (h, e')" by (metis surj_pair)
  show ?case
  proof (cases "h = g")
    case False
    with Cons.prems a have "steps_of g s = xs @ e # ys"
      by (simp add: steps_of_def)
    from Cons.IH [OF this] obtain s1 s2
      where "s = s1 @ (g, e) # s2" "steps_of g s1 = xs" "steps_of g s2 = ys"
      by blast
    with False a have "a # s = (a # s1) @ (g, e) # s2 \<and> steps_of g (a # s1) = xs \<and> steps_of g s2 = ys"
      by (simp add: steps_of_def)
    then show ?thesis by blast
  next
    case True
    with Cons.prems a have eq: "e' # steps_of g s = xs @ e # ys"
      by (simp add: steps_of_def)
    show ?thesis
    proof (cases xs)
      case Nil
      with eq True a have "a # s = [] @ (g, e) # s \<and> steps_of g [] = xs \<and> steps_of g s = ys"
        by (simp add: steps_of_def)
      then show ?thesis by blast
    next
      case (Cons x xs')
      with eq have x: "x = e'" and "steps_of g s = xs' @ e # ys"
        by simp_all
      from Cons.IH [OF this(2)] obtain s1 s2
        where "s = s1 @ (g, e) # s2" "steps_of g s1 = xs'" "steps_of g s2 = ys"
        by blast
      with True a x Cons
      have "a # s = (a # s1) @ (g, e) # s2 \<and> steps_of g (a # s1) = xs \<and> steps_of g s2 = ys"
        by (simp add: steps_of_def)
      then show ?thesis by blast
    qed
  qed
qed

text \<open>An admissible schedule stays admissible from any of its steps on.\<close>

lemma admissible_from:
  "admissible me m (a @ (g, e) # b) \<Longrightarrow>
     \<exists>m1 m2. rw_step g e m1 = Some m2 \<and> admissible me m2 b"
proof (induction a arbitrary: m)
  case Nil
  then show ?case by (auto split: option.splits)
next
  case (Cons x a)
  obtain h e' where "x = (h, e')" by (metis surj_pair)
  with Cons.prems obtain m' where "admissible me m' (a @ (g, e) # b)"
    by (auto split: option.splits)
  from Cons.IH [OF this] show ?case .
qed

text \<open>
  While a goroutine holds the lock for writing and makes no lock operation, nobody else
  makes a step.
\<close>

lemma alone_while_writer:
  "admissible me m s \<Longrightarrow> writer m = Some me \<Longrightarrow> readers m = [] \<Longrightarrow>
     \<forall>e\<in>set (steps_of me s). \<not> is_Mu e \<Longrightarrow> \<forall>x\<in>set s. fst x = me"
proof (induction s arbitrary: m)
  case Nil
  then show ?case by simp
next
  case (Cons x s)
  obtain g e where x: "x = (g, e)" by (metis surj_pair)
  from Cons.prems(1) x obtain m' where st: "rw_step g e m = Some m'"
    and ok: "g = me \<or> is_Mu e \<or> g \<in> set (readers m) \<or> writer m = Some g"
    and adm: "admissible me m' s"
    by (auto split: option.splits)
  have g: "g = me"
  proof (rule ccontr)
    assume ne: "g \<noteq> me"
    with ok Cons.prems(2,3) have "is_Mu e" by auto
    with st ne Cons.prems(2,3) show False
      by (auto simp: is_Mu_def rw_step_def split: if_splits)
  qed
  with Cons.prems(4) x have nm: "\<not> is_Mu e" and rest: "\<forall>e\<in>set (steps_of me s). \<not> is_Mu e"
    by (simp_all add: steps_of_def)
  from nm st have "m' = m"
    by (auto simp: is_Mu_def rw_step_def split: if_splits)
  with Cons.IH [OF adm _ _ rest] Cons.prems(2,3) have "\<forall>x\<in>set s. fst x = me"
    by simp
  with g x show ?case by simp
qed

text \<open>
  If the steps of a goroutine are an upgrade of the lock, steps without a lock operation,
  and a downgrade, then in every admissible schedule the steps between its \<open>Lock\<close> and its
  \<open>Unlock\<close> are all its own.
\<close>

lemma exclusive_section:
  assumes st: "steps_of me s = pre @ [MuRUnlock, MuLock] @ mid @ [MuUnlock, MuRLock] @ post"
    and mid: "\<forall>e\<in>set mid. \<not> is_Mu e"
    and adm: "admissible me m s"
  shows "\<exists>s1 s2 s3. s = s1 @ [(me, MuLock)] @ s2 @ [(me, MuUnlock)] @ s3 \<and>
           (\<forall>x\<in>set s2. fst x = me) \<and>
           steps_of me s1 = pre @ [MuRUnlock] \<and> steps_of me s2 = mid \<and>
           steps_of me s3 = MuRLock # post"
proof -
  from st have "steps_of me s = (pre @ [MuRUnlock]) @ MuLock # (mid @ [MuUnlock, MuRLock] @ post)"
    by simp
  from steps_of_split [OF this] obtain s1 t
    where s: "s = s1 @ (me, MuLock) # t" and s1: "steps_of me s1 = pre @ [MuRUnlock]"
      and t: "steps_of me t = mid @ MuUnlock # (MuRLock # post)"
    by auto
  from steps_of_split [OF t] obtain s2 s3
    where t': "t = s2 @ (me, MuUnlock) # s3" and s2: "steps_of me s2 = mid"
      and s3: "steps_of me s3 = MuRLock # post"
    by auto
  from adm s obtain m1 m2 where l: "rw_step me MuLock m1 = Some m2" and a2: "admissible me m2 t"
    using admissible_from by blast
  from l have w: "writer m2 = Some me" "readers m2 = []"
    by (auto simp: rw_step_def split: if_splits)
  have pref: "admissible me m' (a @ b) \<Longrightarrow> admissible me m' a" for m' a b
    by (induction a arbitrary: m') (auto split: option.splits)
  from a2 t' have "admissible me m2 s2"
    using pref by blast
  from alone_while_writer [OF this w] s2 mid have "\<forall>x\<in>set s2. fst x = me"
    by simp
  with s t' s1 s2 s3 show ?thesis
    by auto
qed

text \<open>
  A schedule in which another goroutine takes the lock for reading between the \<open>Lock\<close> and
  the \<open>Unlock\<close> of goroutine 0 is not admissible: its \<open>RLock\<close> cannot return there. A
  schedule in which another goroutine upgrades the lock itself, and runs its own chmods
  while it holds the lock for writing, is admissible.
\<close>

lemma reader_waits_for_writer:
  "\<not> admissible 0 \<lparr>readers = [0], writer = None\<rparr>
       [(0, MuRUnlock), (0, MuLock), (0, SysFchmod 4 0x8180), (1, MuRLock),
        (1, SysOpenat 3 ''f'' 0x20000 0), (0, SysFchmod 4 0x8080), (0, MuUnlock)]"
  by (simp add: rw_step_def is_Mu_def)

lemma two_upgrades_admissible:
  "admissible 0 \<lparr>readers = [0, 1], writer = None\<rparr> demo_schedule_two_upgrades"
  by (simp add: demo_schedule_two_upgrades_def rw_step_def is_Mu_def)

text \<open>
  C8, as stated, fails: on the file of mode 0200, when the reverting chmod fails, the read
  bit is set when \<open>Lock\<close> has returned and the relaxing chmod is done, and is still set
  when \<open>Unlock\<close> is called and when the call returns (mode 0600, \<open>0x8180\<close>). In the
  schedule below, which is admissible, goroutine 1 takes the lock for reading and opens
  the file right after the \<open>Unlock\<close> of goroutine 0: an open runs while the permissions
  are widened.
\<close>

theorem openWriteOnlyFile_lock_upgrade_counterexample:
  "openWriteOnlyLock (root (demo_world 0x8080 [None, None, None, None, Some EROFS])) = Shared \<and>
   trace_after (openWriteOnlyFile linux_amd64 3 ''f'' 0x20002
       (demo_world 0x8080 [None, None, None, None, Some EROFS]))
     = Some (steps_of 0 demo_schedule_failed_revert) \<and>
   admissible 0 \<lparr>readers = [0], writer = None\<rparr> demo_schedule_failed_revert \<and>
   demo_schedule_failed_revert =
     [(0, SysOpenat 3 ''f'' 0x20001 0), (0, SysFstat 4), (0, MuRUnlock), (0, MuLock),
      (0, SysFchmod 4 0x8180), (0, SysOpenat 3 ''f'' 0x20002 0), (0, SysFchmod 4 0x8080),
      (0, Log (RevertFailed EROFS)), (0, MuUnlock)] @
     [(1, MuRLock), (1, SysOpenat 3 ''f'' 0x20000 0)] @
     [(0, MuRLock), (0, SysClose 4), (1, SysClose 6), (1, MuRUnlock)] \<and>
   window_modes 7 (exclusive_window linux_amd64 3 ''f'' 0x20002
       (demo_world 0x8080 [None, None, None, None, Some EROFS])) = Some (0x8080, 0x8180) \<and>
   mode_after 7 (openWriteOnlyFile linux_amd64 3 ''f'' 0x20002
       (demo_world 0x8080 [None, None, None, None, Some EROFS])) = Some 0x8180 \<and>
   (0x8180 :: u32) AND 0x100 \<noteq> 0"
proof -
  let ?w = "demo_world 0x8080 [None, None, None, None, Some EROFS]"
  have 1: "openWriteOnlyLock (root ?w) = Shared"
    by (simp add: demo_world_def demo_root_def)
  have 2: "trace_after (openWriteOnlyFile linux_amd64 3 ''f'' 0x20002 ?w)
     = Some (steps_of 0 demo_schedule_failed_revert)"
    and 6: "mode_after 7 (openWriteOnlyFile linux_amd64 3 ''f'' 0x20002 ?w) = Some 0x8180"
    by (simp_all add: trace_after_def mode_after_def steps_of_def demo_schedule_failed_revert_def
      demo_world_def demo_root_def
      openWriteOnlyFile_def openWriteOnlyFile_opened_def openWriteOnlyFile_locked_def
      Openat_def Fstat_def Fchmod_def Close_def sysenter_def emit_def mu_def
      RLock_def RUnlock_def Lock_def Unlock_def injected_def may_open_def S_IALLUGO_def
      linux_amd64_def O_WRONLY_def O_ACCMODE_def O_RDONLY_def Let_def)
  have 3: "admissible 0 \<lparr>readers = [0], writer = None\<rparr> demo_schedule_failed_revert"
    by (simp add: demo_schedule_failed_revert_def rw_step_def is_Mu_def)
  have 4: "demo_schedule_failed_revert =
     [(0, SysOpenat 3 ''f'' 0x20001 0), (0, SysFstat 4), (0, MuRUnlock), (0, MuLock),
      (0, SysFchmod 4 0x8180), (0, SysOpenat 3 ''f'' 0x20002 0), (0, SysFchmod 4 0x8080),
      (0, Log (RevertFailed EROFS)), (0, MuUnlock)] @
     [(1, MuRLock), (1, SysOpenat 3 ''f'' 0x20000 0)] @
     [(0, MuRLock), (0, SysClose 4), (1, SysClose 6), (1, MuRUnlock)]"
    by (simp add: demo_schedule_failed_revert_def)
  have 5: "window_modes 7 (exclusive_window linux_amd64 3 ''f'' 0x20002 ?w) = Some (0x8080, 0x8180)"
    by (simp add: window_modes_def exclusive_window_def demo_world_def demo_root_def
      openWriteOnlyFile_locked_def
      Openat_def Fstat_def Fchmod_def sysenter_def emit_def mu_def
      RUnlock_def Lock_def injected_def may_open_def S_IALLUGO_def
      linux_amd64_def O_WRONLY_def O_ACCMODE_def O_RDONLY_def Let_def)
  have 7: "(0x8180 :: u32) AND 0x100 \<noteq> 0"
    by simp
  from 1 2 3 4 5 6 7 show ?thesis by blast
qed

text \<open>
  C8, amended. Let the caller hold \<open>openWriteOnlyLock\<close> for reading, as every open does.
  Then the call returns with the lock held for reading again, on every path, and: either
  it issues no chmod, does not touch the lock and leaves every mode as it was; or what it
  does is, in this order, steps without a chmod, \<open>RUnlock\<close> and \<open>Lock\<close>, the steps that
  hold all its chmods (the relaxing one, the read-write open, the reverting one) and no
  operation on the lock, \<open>Unlock\<close> and \<open>RLock\<close>, steps without a chmod. In the second
  case the modes are those of the entry when \<open>Lock\<close> has returned, and those of the
  return when \<open>Unlock\<close> is called; and they are those of the entry again when \<open>Unlock\<close>
  is called, unless the reverting chmod failed. Among goroutines: in every admissible
  schedule that interleaves these steps with the steps of other goroutines, be they opens
  or calls of \<open>openWriteOnlyFile\<close>, all chmods of the call lie between its \<open>Lock\<close> and its
  \<open>Unlock\<close>, and between these two no other goroutine makes any step. So the permissions
  are relaxed only while the lock is held for writing and nothing else runs, except that
  a read bit whose revert failed stays after the \<open>Unlock\<close>, as the counterexample shows.
\<close>

theorem openWriteOnlyFile_lock_upgrade:
  assumes "openWriteOnlyLock (root w) = Shared"
  shows "\<exists>r w' evs. openWriteOnlyFile c dirfd cName newFlags w = Some (r, w') \<and>
           trace w' = trace w @ evs \<and> openWriteOnlyLock (root w') = Shared \<and>
           ((\<forall>e\<in>set evs. \<not> is_Fchmod e \<and> \<not> is_Mu e) \<and> modes w' = modes w \<and>
              exclusive_window c dirfd cName newFlags w = None \<or>
            (\<exists>pre mid post wl wu.
               evs = pre @ [MuRUnlock, MuLock] @ mid @ [MuUnlock, MuRLock] @ post \<and>
               (\<forall>e\<in>set pre \<union> set post. \<not> is_Fchmod e) \<and>
               (\<forall>e\<in>set pre \<union> set mid \<union> set post. \<not> is_Mu e) \<and>
               (\<exists>e\<in>set mid. is_Fchmod e) \<and>
               exclusive_window c dirfd cName newFlags w = Some (wl, wu) \<and>
               trace wl = trace w @ pre @ [MuRUnlock, MuLock] \<and> trace wu = trace wl @ mid \<and>
               modes wl = modes w \<and> modes w' = modes wu \<and>
               ((\<forall>e. Log (RevertFailed e) \<notin> set mid) \<longrightarrow> modes wu = modes w))) \<and>
           (\<forall>me m s. steps_of me s = evs \<and> admissible me m s \<longrightarrow>
              (\<forall>x\<in>set s. fst x = me \<longrightarrow> \<not> is_Fchmod (snd x)) \<or>
              (\<exists>s1 s2 s3. s = s1 @ [(me, MuLock)] @ s2 @ [(me, MuUnlock)] @ s3 \<and>
                 (\<forall>x\<in>set s2. fst x = me) \<and>
                 (\<forall>x\<in>set s1 \<union> set s3. fst x = me \<longrightarrow> \<not> is_Fchmod (snd x))))"
proof -
  let ?quiet = "\<lambda>w' evs. (\<forall>e\<in>set evs. \<not> is_Fchmod e \<and> \<not> is_Mu e) \<and> modes w' = modes w \<and>
              exclusive_window c dirfd cName newFlags w = None"
  let ?upgrade = "\<lambda>w' evs. \<exists>pre mid post wl wu.
               evs = pre @ [MuRUnlock, MuLock] @ mid @ [MuUnlock, MuRLock] @ post \<and>
               (\<forall>e\<in>set pre \<union> set post. \<not> is_Fchmod e) \<and>
               (\<forall>e\<in>set pre \<union> set mid \<union> set post. \<not> is_Mu e) \<and>
               (\<exists>e\<in>set mid. is_Fchmod e) \<and>
               exclusive_window c dirfd cName newFlags w = Some (wl, wu) \<and>
               trace wl = trace w @ pre @ [MuRUnlock, MuLock] \<and> trace wu = trace wl @ mid \<and>
               modes wl = modes w \<and> modes w' = modes wu \<and>
               ((\<forall>e. Log (RevertFailed e) \<notin> set mid) \<longrightarrow> modes wu = modes w)"
  have shape: "\<exists>r w' evs. openWriteOnlyFile c dirfd cName newFlags w = Some (r, w') \<and>
           trace w' = trace w @ evs \<and> openWriteOnlyLock (root w') = Shared \<and>
           (?quiet w' evs \<or> ?upgrade w' evs)"
  proof (cases "initial_stat c dirfd cName w")
    case None
    from early_return [OF None, of newFlags] obtain e w' evs
      where "openWriteOnlyFile c dirfd cName newFlags w = Some ((0, Some e), w')"
        "trace w' = trace w @ evs" "\<forall>x\<in>set evs. \<not> is_Fchmod x \<and> \<not> is_Mu x"
        "modes w' = modes w" "root w' = root w"
        "exclusive_window c dirfd cName newFlags w = None"
      by blast
    with assms show ?thesis
      by auto
  next
    case (Some a)
    obtain woFd st where a: "a = (woFd, st)" by (metis surj_pair)
    show ?thesis
    proof (cases "Mode st AND 0x100 = 0")
      case False
      from readable_return [OF Some [unfolded a] False, of newFlags] obtain w' evs
        where "openWriteOnlyFile c dirfd cName newFlags w = Some ((0, Some EPERM), w')"
          "trace w' = trace w @ evs" "\<forall>x\<in>set evs. \<not> is_Fchmod x \<and> \<not> is_Mu x"
          "modes w' = modes w" "root w' = root w"
          "exclusive_window c dirfd cName newFlags w = None"
        by blast
      with assms show ?thesis
        by auto
    next
      case True
      let ?pre = "[SysOpenat dirfd cName (O_WRONLY OR O_NOFOLLOW c) 0, SysFstat woFd]"
      let ?post = "[SysClose woFd]"
      from writeonly_return [OF Some [unfolded a] True assms, of newFlags] obtain r w' mid wl wu
        where run: "openWriteOnlyFile c dirfd cName newFlags w = Some (r, w')"
          and tr: "trace w' = trace w @ ?pre @ [MuRUnlock, MuLock] @ mid @ [MuUnlock, MuRLock] @ ?post"
          and mu: "\<forall>e\<in>set mid. \<not> is_Mu e"
          and ch: "filter is_Fchmod mid = [SysFchmod woFd (Mode st OR 0x100), SysFchmod woFd (Mode st)] \<or>
              filter is_Fchmod mid = [SysFchmod woFd (Mode st OR 0x100)] \<and>
                (\<exists>e. Log (ChmodFailed e) \<in> set mid \<and> r = (0, Some e)) \<and>
                (\<forall>e. Log (RevertFailed e) \<notin> set mid)"
          and ok: "(\<forall>e. Log (RevertFailed e) \<notin> set mid) \<longrightarrow> modes w' = modes w"
          and lk: "openWriteOnlyLock (root w') = Shared"
          and win: "exclusive_window c dirfd cName newFlags w = Some (wl, wu)"
            "trace wl = trace w @ ?pre @ [MuRUnlock, MuLock]" "trace wu = trace wl @ mid"
            "modes wl = modes w" "modes w' = modes wu"
        by blast
      from ch have "filter is_Fchmod mid \<noteq> []"
        by auto
      then have ex: "\<exists>e\<in>set mid. is_Fchmod e"
        by (simp add: filter_empty_conv)
      have q: "\<forall>e\<in>set ?pre \<union> set ?post. \<not> is_Fchmod e"
        "\<forall>e\<in>set ?pre \<union> set mid \<union> set ?post. \<not> is_Mu e"
        using mu by (auto simp: is_Fchmod_def is_Mu_def)
      from ok win(5) have rv: "(\<forall>e. Log (RevertFailed e) \<notin> set mid) \<longrightarrow> modes wu = modes w"
        by simp
      from q ex win rv have "?upgrade w' (?pre @ [MuRUnlock, MuLock] @ mid @ [MuUnlock, MuRLock] @ ?post)"
        by blast
      with run tr lk show ?thesis
        by blast
    qed
  qed
  then obtain r w' evs
    where run: "openWriteOnlyFile c dirfd cName newFlags w = Some (r, w')"
      and tr: "trace w' = trace w @ evs" and lk: "openWriteOnlyLock (root w') = Shared"
      and sh: "?quiet w' evs \<or> ?upgrade w' evs"
    by blast
  have among: "(\<forall>x\<in>set s. fst x = me \<longrightarrow> \<not> is_Fchmod (snd x)) \<or>
              (\<exists>s1 s2 s3. s = s1 @ [(me, MuLock)] @ s2 @ [(me, MuUnlock)] @ s3 \<and>
                 (\<forall>x\<in>set s2. fst x = me) \<and>
                 (\<forall>x\<in>set s1 \<union> set s3. fst x = me \<longrightarrow> \<not> is_Fchmod (snd x)))"
    if st: "steps_of me s = evs" and adm: "admissible me m s" for me m s
    using sh
  proof
    assume "?quiet w' evs"
    with st have "\<forall>x\<in>set s. fst x = me \<longrightarrow> \<not> is_Fchmod (snd x)"
      by (auto dest: steps_of_member)
    then show ?thesis ..
  next
    assume "?upgrade w' evs"
    then obtain pre mid post
      where evs: "evs = pre @ [MuRUnlock, MuLock] @ mid @ [MuUnlock, MuRLock] @ post"
        and nc: "\<forall>e\<in>set pre \<union> set post. \<not> is_Fchmod e"
        and nm: "\<forall>e\<in>set mid. \<not> is_Mu e"
      by blast
    from exclusive_section [OF st [unfolded evs] nm adm] obtain s1 s2 s3
      where s: "s = s1 @ [(me, MuLock)] @ s2 @ [(me, MuUnlock)] @ s3"
        and alone: "\<forall>x\<in>set s2. fst x = me"
        and p: "steps_of me s1 = pre @ [MuRUnlock]" "steps_of me s3 = MuRLock # post"
      by blast
    have "\<not> is_Fchmod (snd x)" if "x \<in> set s1 \<union> set s3" "fst x = me" for x
    proof -
      from that have "snd x \<in> set (steps_of me s1) \<union> set (steps_of me s3)"
        by (auto dest: steps_of_member)
      with p nc show ?thesis
        by (auto simp: is_Fchmod_def)
    qed
    with s alone show ?thesis
      by blast
  qed
  from run tr lk sh among show ?thesis
    by blast
qed

text \<open>
  The file of mode 0200, with every call succeeding: the mode is 0200 at both ends of the
  window and at the return. Two schedules for this run are admissible: one in which
  goroutine 1 runs an open before the upgrade and goroutine 2 one after it, and one in
  which goroutine 1 upgrades the lock itself.
\<close>

theorem openWriteOnlyFile_lock_upgrade_witness:
  "openWriteOnlyLock (root (demo_world 0x8080 [])) = Shared \<and>
   returned (openWriteOnlyFile linux_amd64 3 ''f'' 0x20002 (demo_world 0x8080 []))
     = Some (5, None) \<and>
   trace_after (openWriteOnlyFile linux_amd64 3 ''f'' 0x20002 (demo_world 0x8080 []))
     = Some ([SysOpenat 3 ''f'' 0x20001 0, SysFstat 4] @ [MuRUnlock, MuLock] @
         [SysFchmod 4 0x8180, SysOpenat 3 ''f'' 0x20002 0, SysFchmod 4 0x8080] @
         [MuUnlock, MuRLock] @ [SysClose 4]) \<and>
   window_modes 7 (exclusive_window linux_amd64 3 ''f'' 0x20002 (demo_world 0x8080 []))
     = Some (0x8080, 0x8080) \<and>
   mode_after 7 (openWriteOnlyFile linux_amd64 3 ''f'' 0x20002 (demo_world 0x8080 []))
     = Some 0x8080 \<and>
   trace_after (openWriteOnlyFile linux_amd64 3 ''f'' 0x20002 (demo_world 0x8080 []))
     = Some (steps_of 0 demo_schedule) \<and>
   admissible 0 \<lparr>readers = [0], writer = None\<rparr> demo_schedule \<and>
   trace_after (openWriteOnlyFile linux_amd64 3 ''f'' 0x20002 (demo_world 0x8080 []))
     = Some (steps_of 0 demo_schedule_two_upgrades) \<and>
   admissible 0 \<lparr>readers = [0, 1], writer = None\<rparr> demo_schedule_two_upgrades"
proof -
  have h: "openWriteOnlyLock (root (demo_world 0x8080 [])) = Shared"
    by (simp add: demo_world_def demo_root_def)
  have e: "returned (openWriteOnlyFile linux_amd64 3 ''f'' 0x20002 (demo_world 0x8080 []))
     = Some (5, None)"
    "trace_after (openWriteOnlyFile linux_amd64 3 ''f'' 0x20002 (demo_world 0x8080 []))
     = Some ([SysOpenat 3 ''f'' 0x20001 0, SysFstat 4] @ [MuRUnlock, MuLock] @
         [SysFchmod 4 0x8180, SysOpenat 3 ''f'' 0x20002 0, SysFchmod 4 0x8080] @
         [MuUnlock, MuRLock] @ [SysClose 4])"
    "mode_after 7 (openWriteOnlyFile linux_amd64 3 ''f'' 0x20002 (demo_world 0x8080 []))
     = Some 0x8080"
    by (simp_all add: trace_after_def returned_def mode_after_def demo_world_def demo_root_def
      openWriteOnlyFile_def openWriteOnlyFile_opened_def openWriteOnlyFile_locked_def
      Openat_def Fstat_def Fchmod_def Close_def sysenter_def emit_def mu_def
      RLock_def RUnlock_def Lock_def Unlock_def injected_def may_open_def S_IALLUGO_def
      linux_amd64_def O_WRONLY_def O_ACCMODE_def O_RDONLY_def Let_def)
  have v: "window_modes 7 (exclusive_window linux_amd64 3 ''f'' 0x20002 (demo_world 0x8080 []))
     = Some (0x8080, 0x8080)"
    by (simp add: window_modes_def exclusive_window_def demo_world_def demo_root_def
      openWriteOnlyFile_locked_def
      Openat_def Fstat_def Fchmod_def sysenter_def emit_def mu_def
      RUnlock_def Lock_def injected_def may_open_def S_IALLUGO_def
      linux_amd64_def O_WRONLY_def O_ACCMODE_def O_RDONLY_def Let_def)
  have s: "steps_of 0 demo_schedule = [SysOpenat 3 ''f'' 0x20001 0, SysFstat 4] @ [MuRUnlock, MuLock] @
         [SysFchmod 4 0x8180, SysOpenat 3 ''f'' 0x20002 0, SysFchmod 4 0x8080] @
         [MuUnlock, MuRLock] @ [SysClose 4]"
    "steps_of 0 demo_schedule_two_upgrades = [SysOpenat 3 ''f'' 0x20001 0, SysFstat 4] @ [MuRUnlock, MuLock] @
         [SysFchmod 4 0x8180, SysOpenat 3 ''f'' 0x20002 0, SysFchmod 4 0x8080] @
         [MuUnlock, MuRLock] @ [SysClose 4]"
    by (simp_all add: steps_of_def demo_schedule_def demo_schedule_two_upgrades_def)
  have a: "admissible 0 \<lparr>readers = [0], writer = None\<rparr> demo_schedule"
    "admissible 0 \<lparr>readers = [0, 1], writer = None\<rparr> demo_schedule_two_upgrades"
    by (simp_all add: demo_schedule_def demo_schedule_two_upgrades_def rw_step_def is_Mu_def)
  from openWriteOnlyFile_lock_upgrade [OF h, of linux_amd64 3 "''f''" "0x20002"]
  have "\<exists>r w'. openWriteOnlyFile linux_amd64 3 ''f'' 0x20002 (demo_world 0x8080 []) = Some (r, w')"
    by blast
  with h e v s a show ?thesis by simp
qed


end
